theory Spec2Isabelle
  imports Main "HOL-Library.AList" "HOL-Library.Sublist"
begin

section \<open>Dis Maman backend: a shallow embedding of \<open>backend/server.py\<close>\<close>

text \<open>
  The development embeds the request handlers \<open>create_child\<close>, \<open>ask_question\<close>,
  \<open>get_monetization_status\<close> and \<open>submit_feedback\<close> of \<open>server.py\<close>.

  \<^item> The MongoDB collections \<open>users\<close>, \<open>children\<close> and \<open>responses\<close> are lists of
    documents held in a record \<open>db\<close>; every handler takes the database and returns the
    updated one. \<open>find_one\<close> is \<open>find\<close>, \<open>update_one\<close> changes the first match, and
    \<open>insert_one\<close> appends a document under the next free identifier.
  \<^item> An \<open>HTTPException\<close> is the left summand of the handler's result, the returned
    dictionary the right one. Dictionaries are association lists in insertion order.
  \<^item> The text-generation provider is a function from a request to an outcome (the call
    raises, which covers a timeout, or returns a content that may be \<open>None\<close>); a handler
    also returns the list of the requests it sent, in order. Logging is left out.
  \<^item> \<open>datetime.utcnow()\<close> and \<open>datetime.now()\<close> are parameters \<open>utcnow\<close> and
    \<open>now\<close>: a handler observes one reading of each clock. The exception is
    \<open>get_monetization_status\<close>, which subtracts a later reading from a date it has
    compared with an earlier one: each of its readings is a parameter of its own.
  \<^item> Text is a HOL string whose characters are read as code points 0 to 255.
  \<^item> An \<open>ObjectId\<close> is a natural number, so a stored \<open>active_child_id\<close> is never the
    empty string. Request bodies are values of their validated pydantic type; the
    handler argument \<open>current_user\<close> is the user document found for the token.
\<close>

subsection \<open>Dates\<close>

text \<open>
  A naive \<open>datetime\<close> is the record of its fields. Comparison is the lexicographic
  comparison of the field tuples; subtraction goes through the proleptic Gregorian
  ordinal, as in the standard library. A \<open>timedelta\<close> is its total number of
  microseconds, of which \<open>.days\<close> is the floor division by one day.
\<close>

record datetime =
  dt_year :: int
  dt_month :: int
  dt_day :: int
  dt_hour :: int
  dt_minute :: int
  dt_second :: int
  dt_microsecond :: int

type_synonym timedelta = int

definition dt_fields :: "datetime \<Rightarrow> int list" where
  "dt_fields d = [dt_year d, dt_month d, dt_day d, dt_hour d, dt_minute d, dt_second d,
     dt_microsecond d]"

fun lex_less :: "int list \<Rightarrow> int list \<Rightarrow> bool" where
  "lex_less (x # xs) (y # ys) = (x < y \<or> (x = y \<and> lex_less xs ys))"
| "lex_less [] (y # ys) = True"
| "lex_less xs [] = False"

definition dt_less :: "datetime \<Rightarrow> datetime \<Rightarrow> bool" where
  "dt_less a b = lex_less (dt_fields a) (dt_fields b)"

definition dt_ge :: "datetime \<Rightarrow> datetime \<Rightarrow> bool" where
  "dt_ge a b = (\<not> dt_less a b)"

definition is_leap :: "int \<Rightarrow> bool" where
  "is_leap y = (y mod 4 = 0 \<and> (y mod 100 \<noteq> 0 \<or> y mod 400 = 0))"

definition DAYS_IN_MONTH :: "int list" where
  "DAYS_IN_MONTH = [31, 28, 31, 30, 31, 30, 31, 31, 30, 31, 30, 31]"

definition days_before_year :: "int \<Rightarrow> int" where
  "days_before_year year =
     (let y = year - 1 in y * 365 + y div 4 - y div 100 + y div 400)"

definition days_before_month :: "int \<Rightarrow> int \<Rightarrow> int" where
  "days_before_month year month =
     sum_list (take (nat (month - 1)) DAYS_IN_MONTH)
       + (if month > 2 \<and> is_leap year then 1 else 0)"

definition toordinal :: "datetime \<Rightarrow> int" where
  "toordinal d = days_before_year (dt_year d) + days_before_month (dt_year d) (dt_month d)
     + dt_day d"

definition US_PER_DAY :: int where
  "US_PER_DAY = 86400 * 1000000"

definition dt_sub :: "datetime \<Rightarrow> datetime \<Rightarrow> timedelta" where
  "dt_sub a b =
     (let secs1 = dt_second a + dt_minute a * 60 + dt_hour a * 3600;
          secs2 = dt_second b + dt_minute b * 60 + dt_hour b * 3600
      in (toordinal a - toordinal b) * US_PER_DAY + (secs1 - secs2) * 1000000
           + (dt_microsecond a - dt_microsecond b))"

definition td_days :: "timedelta \<Rightarrow> int" where
  "td_days td = td div US_PER_DAY"

text \<open>\<open>utcnow().replace(day=1, hour=0, minute=0, second=0, microsecond=0)\<close>\<close>

definition start_of_month :: "datetime \<Rightarrow> datetime" where
  "start_of_month d =
     d\<lparr>dt_day := 1, dt_hour := 0, dt_minute := 0, dt_second := 0, dt_microsecond := 0\<rparr>"

subsection \<open>Text\<close>

text \<open>
  \<open>str.isspace\<close> on the code points 0 to 255, \<open>str.strip()\<close>, and the test
  \<open>not s or len(s.strip()) == 0\<close> that the handlers apply to a provider's content
  (which may be \<open>None\<close>).
\<close>

definition isspace :: "char \<Rightarrow> bool" where
  "isspace c = (let n = (of_char c :: nat) in
     (9 \<le> n \<and> n \<le> 13) \<or> (28 \<le> n \<and> n \<le> 32) \<or> n = 133 \<or> n = 160)"

definition strip :: "string \<Rightarrow> string" where
  "strip s = rev (dropWhile isspace (rev (dropWhile isspace s)))"

definition is_blank :: "string option \<Rightarrow> bool" where
  "is_blank a = (case a of None \<Rightarrow> True | Some s \<Rightarrow> s = [] \<or> length (strip s) = 0)"

text \<open>How an f-string renders a value that is a string or \<open>None\<close>.\<close>

definition fmt :: "string option \<Rightarrow> string" where
  "fmt a = (case a of None \<Rightarrow> ''None'' | Some s \<Rightarrow> s)"

subsection \<open>Documents and the database\<close>

type_synonym oid = nat

datatype Gender = Boy | Girl

datatype FeedbackKind = Understood | TooComplex | NeedMoreDetails

definition gender_value :: "Gender \<Rightarrow> string" where
  "gender_value g = (case g of Boy \<Rightarrow> ''boy'' | Girl \<Rightarrow> ''girl'')"

text \<open>
  A field read with \<open>.get\<close> may be absent from a document and is an option here.
  \<open>r_user_id\<close> is the field \<open>user_id\<close> of a response document: the usage queries
  filter on it, and no handler writes it.
\<close>

record user_doc =
  u_id :: oid
  u_is_premium :: bool
  u_trial_end_date :: "datetime option"
  u_trial_start_date :: "datetime option"
  u_active_child_id :: "oid option"
  u_subscription_type :: "string option"
  u_last_popup_shown :: "string option"
  u_questions_asked :: int

record child_doc =
  c_id :: oid
  c_name :: string
  c_gender :: Gender
  c_birth_month :: int
  c_birth_year :: int
  c_complexity_level :: "int option"
  c_parent_id :: oid
  c_created_at :: datetime

record response_doc =
  r_id :: oid
  r_question :: string
  r_answer :: "string option"
  r_child_id :: oid
  r_child_name :: string
  r_child_age_months :: int
  r_parent_id :: oid
  r_user_id :: "oid option"
  r_created_at :: datetime
  r_feedback :: "FeedbackKind option"
  r_feedback_timestamp :: "datetime option"
  r_regenerated :: bool
  r_regenerated_timestamp :: "datetime option"

record db =
  users :: "user_doc list"
  children :: "child_doc list"
  responses :: "response_doc list"
  next_oid :: oid

definition count_documents :: "('a \<Rightarrow> bool) \<Rightarrow> 'a list \<Rightarrow> int" where
  "count_documents P xs = int (length (filter P xs))"

fun update_one :: "('a \<Rightarrow> bool) \<Rightarrow> ('a \<Rightarrow> 'a) \<Rightarrow> 'a list \<Rightarrow> 'a list" where
  "update_one P f [] = []"
| "update_one P f (x # xs) = (if P x then f x # xs else x # update_one P f xs)"

text \<open>\<open>child.get("complexity_level", 0)\<close>\<close>

definition complexity_of :: "child_doc \<Rightarrow> int" where
  "complexity_of c = (case c_complexity_level c of None \<Rightarrow> 0 | Some l \<Rightarrow> l)"

subsection \<open>Results\<close>

datatype http_error = HTTPException int string

datatype json = JNull | JBool bool | JInt int | JStr string | JTime datetime
  | JObj "(string \<times> json) list"

type_synonym dict = "(string \<times> json) list"

definition opt_str :: "string option \<Rightarrow> json" where
  "opt_str a = (case a of None \<Rightarrow> JNull | Some s \<Rightarrow> JStr s)"

definition opt_oid :: "oid option \<Rightarrow> json" where
  "opt_oid a = (case a of None \<Rightarrow> JNull | Some i \<Rightarrow> JInt (int i))"

subsection \<open>The provider\<close>

text \<open>
  A system message is represented by the template that builds it and the values
  interpolated into it; the French prompt text is not reproduced. The age in years is the
  pair of the whole years and the twelfths that \<open>calculate_child_age_years\<close> adds.
  Token limits and temperatures of a request are left out.
\<close>

datatype model = GPT5 | GPT4o

datatype instruction =
    AdvancedSystemMessage string Gender "int \<times> int" int
  | PlusInfosSystemMessage string

record completion_request =
  cr_model :: model
  cr_system :: instruction
  cr_user :: string

datatype outcome = Raises | Content "string option"

type_synonym provider = "completion_request \<Rightarrow> outcome"

definition calculate_age_months :: "datetime \<Rightarrow> int \<Rightarrow> int \<Rightarrow> int" where
  "calculate_age_months now birth_year birth_month =
     max 0 ((dt_year now - birth_year) * 12 + (dt_month now - birth_month))"

definition calculate_child_age_years :: "datetime \<Rightarrow> int \<Rightarrow> int \<Rightarrow> int \<times> int" where
  "calculate_child_age_years now birth_month birth_year =
     (let age = dt_year now - birth_year;
          age = (if dt_month now < birth_month then age - 1 else age)
      in (age, max 0 (dt_month now - birth_month)))"

definition generate_advanced_system_message ::
    "string \<Rightarrow> Gender \<Rightarrow> int \<times> int \<Rightarrow> int \<Rightarrow> instruction" where
  "generate_advanced_system_message child_name child_gender age complexity_level =
     AdvancedSystemMessage child_name child_gender age complexity_level"

text \<open>
  The chain of \<open>try\<close> blocks shared by the handlers: the primary model is asked; if the
  call raises or its content is blank, the secondary model is asked with the same
  messages. The result is the secondary's outcome when it was asked (\<open>Raises\<close> then
  propagates to the enclosing \<open>except\<close>), together with the requests sent.
\<close>

definition try_gpt5_then_gpt4o ::
    "provider \<Rightarrow> instruction \<Rightarrow> string \<Rightarrow> outcome \<times> completion_request list" where
  "try_gpt5_then_gpt4o prov sys usr =
     (let r1 = \<lparr>cr_model = GPT5, cr_system = sys, cr_user = usr\<rparr>;
          r2 = \<lparr>cr_model = GPT4o, cr_system = sys, cr_user = usr\<rparr>
      in case prov r1 of
           Content c \<Rightarrow>
             (if is_blank c then (prov r2, [r1, r2]) else (Content c, [r1]))
         | Raises \<Rightarrow> (prov r2, [r1, r2]))"

subsection \<open>\<open>create_child\<close>\<close>

record ChildCreate =
  cc_name :: string
  cc_gender :: Gender
  cc_birth_month :: int
  cc_birth_year :: int
  cc_complexity_level :: int

text \<open>The \<open>Field\<close> constraints of \<open>ChildCreate\<close>; \<open>this_year\<close> is the year at import.\<close>

definition ChildCreate_valid :: "int \<Rightarrow> ChildCreate \<Rightarrow> bool" where
  "ChildCreate_valid this_year cd =
     (1 \<le> length (cc_name cd) \<and> length (cc_name cd) \<le> 50
      \<and> 1 \<le> cc_birth_month cd \<and> cc_birth_month cd \<le> 12
      \<and> 2000 \<le> cc_birth_year cd \<and> cc_birth_year cd \<le> this_year
      \<and> -2 \<le> cc_complexity_level cd \<and> cc_complexity_level cd \<le> 2)"

definition create_child ::
    "datetime \<Rightarrow> datetime \<Rightarrow> ChildCreate \<Rightarrow> user_doc \<Rightarrow> db \<Rightarrow> (http_error + dict) \<times> db" where
  "create_child utcnow now child_data current_user d =
     (let user_id = u_id current_user;
          children_count = count_documents (\<lambda>c. c_parent_id c = user_id) (children d)
      in if children_count \<ge> 4 then (Inl (HTTPException 400 ''Maximum 4 children allowed''), d)
         else
           let child_id = next_oid d;
               new_child = \<lparr>c_id = child_id, c_name = cc_name child_data,
                 c_gender = cc_gender child_data, c_birth_month = cc_birth_month child_data,
                 c_birth_year = cc_birth_year child_data,
                 c_complexity_level = Some (cc_complexity_level child_data),
                 c_parent_id = user_id, c_created_at = utcnow\<rparr>;
               d' = d\<lparr>children := children d @ [new_child], next_oid := Suc (next_oid d)\<rparr>;
               age_months = calculate_age_months now (cc_birth_year child_data)
                 (cc_birth_month child_data)
           in (Inr [(''id'', JInt (int child_id)), (''name'', JStr (cc_name child_data)),
                 (''gender'', JStr (gender_value (cc_gender child_data))),
                 (''birth_month'', JInt (cc_birth_month child_data)),
                 (''birth_year'', JInt (cc_birth_year child_data)),
                 (''complexity_level'', JInt (cc_complexity_level child_data)),
                 (''age_months'', JInt age_months),
                 (''parent_id'', JInt (int user_id))], d'))"

text \<open>A run of \<open>create_child\<close> requests, each with its own clock readings and caller.\<close>

fun create_children :: "(datetime \<times> datetime \<times> ChildCreate \<times> user_doc) list \<Rightarrow> db \<Rightarrow> db" where
  "create_children [] d = d"
| "create_children ((utcnow, now, cd, u) # rest) d =
     create_children rest (snd (create_child utcnow now cd u d))"

subsection \<open>\<open>ask_question\<close>\<close>

record QuestionRequest =
  qr_question :: string
  qr_child_id :: oid

definition ask_fallback_answer :: "string \<Rightarrow> string" where
  "ask_fallback_answer child_name =
     ''Bonjour '' @ child_name @ '', je n'ai pas pu r'' @ [CHR 0xE9] @ ''pondre '' @ [CHR 0xE0]
       @ '' ta question pour le moment. Peux-tu me la redemander ?''"

definition is_trial_active :: "user_doc \<Rightarrow> datetime \<Rightarrow> bool" where
  "is_trial_active current_user utcnow =
     (case u_trial_end_date current_user of None \<Rightarrow> False | Some t \<Rightarrow> dt_less utcnow t)"

text \<open>
  The count that both \<open>ask_question\<close> and \<open>get_monetization_status\<close> make:
  \<open>db.responses.count_documents({"user_id": user_id, "created_at": {"$gte": start_of_month}})\<close>.
\<close>

definition questions_this_month :: "oid \<Rightarrow> datetime \<Rightarrow> db \<Rightarrow> int" where
  "questions_this_month user_id utcnow d =
     count_documents
       (\<lambda>r. r_user_id r = Some user_id \<and> dt_ge (r_created_at r) (start_of_month utcnow))
       (responses d)"

definition ask_question ::
    "provider option \<Rightarrow> datetime \<Rightarrow> datetime \<Rightarrow> QuestionRequest \<Rightarrow> user_doc \<Rightarrow> db
      \<Rightarrow> (http_error + dict) \<times> db \<times> completion_request list" where
  "ask_question openai_client utcnow now request current_user d =
     (let user_id = u_id current_user in
      case find (\<lambda>c. c_id c = qr_child_id request \<and> c_parent_id c = user_id) (children d) of
        None \<Rightarrow> (Inl (HTTPException 404 ''Child not found''), d, [])
      | Some child \<Rightarrow>
          let is_premium = u_is_premium current_user;
              trial_active = is_trial_active current_user utcnow;
              active_child_id = u_active_child_id current_user;
              this_month = questions_this_month user_id utcnow d
          in if \<not> is_premium \<and> \<not> trial_active
                  \<and> active_child_id \<noteq> None \<and> Some (c_id child) \<noteq> active_child_id
             then (Inl (HTTPException 402 ''Child not active in free version''), d, [])
             else if \<not> is_premium \<and> \<not> trial_active \<and> this_month \<ge> 1
             then (Inl (HTTPException 402 ''Monthly question limit reached''), d, [])
             else
               let age_years = calculate_child_age_years now (c_birth_month child)
                     (c_birth_year child);
                   age_months = calculate_age_months now (c_birth_year child)
                     (c_birth_month child);
                   complexity_level = complexity_of child;
                   system_message = generate_advanced_system_message (c_name child)
                     (c_gender child) age_years complexity_level;
                   (ai_answer, calls) =
                     (case openai_client of
                        None \<Rightarrow> (Some (ask_fallback_answer (c_name child)), [])
                      | Some prov \<Rightarrow>
                          (case try_gpt5_then_gpt4o prov system_message (qr_question request) of
                             (Content c, sent) \<Rightarrow> (c, sent)
                           | (Raises, sent) \<Rightarrow> (Some (ask_fallback_answer (c_name child)), sent)));
                   response_id = next_oid d;
                   new_response = \<lparr>r_id = response_id, r_question = qr_question request,
                     r_answer = ai_answer, r_child_id = qr_child_id request,
                     r_child_name = c_name child, r_child_age_months = age_months,
                     r_parent_id = user_id, r_user_id = None, r_created_at = utcnow,
                     r_feedback = None, r_feedback_timestamp = None, r_regenerated = False,
                     r_regenerated_timestamp = None\<rparr>;
                   d' = d\<lparr>responses := responses d @ [new_response],
                     next_oid := Suc (next_oid d),
                     users := update_one (\<lambda>u. u_id u = user_id)
                       (\<lambda>u. u\<lparr>u_questions_asked := u_questions_asked u + 1\<rparr>) (users d)\<rparr>
               in (Inr [(''id'', JInt (int response_id)),
                     (''question'', JStr (qr_question request)),
                     (''answer'', opt_str ai_answer),
                     (''child_id'', JInt (int (qr_child_id request))),
                     (''child_name'', JStr (c_name child)),
                     (''child_age_months'', JInt age_months),
                     (''created_at'', JTime utcnow)], d', calls))"

subsection \<open>\<open>get_monetization_status\<close>\<close>

text \<open>
  The handler reads \<open>datetime.utcnow()\<close> four times, in this order: for the default of
  \<open>trial_start_date\<close>, for the comparison with the trial's end, for the subtraction, and
  for the start of the month. The four readings are \<open>utcnow_start\<close>, \<open>utcnow_cmp\<close>,
  \<open>utcnow_sub\<close> and \<open>utcnow_month\<close>. \<open>trial_days_left\<close> is the value of the variable
  of that name.
\<close>

definition trial_days_left :: "user_doc \<Rightarrow> datetime \<Rightarrow> datetime \<Rightarrow> int" where
  "trial_days_left current_user utcnow_cmp utcnow_sub =
     (case u_trial_end_date current_user of
        None \<Rightarrow> 0
      | Some trial_end_date \<Rightarrow>
          if dt_less utcnow_cmp trial_end_date
          then td_days (dt_sub trial_end_date utcnow_sub) else 0)"

definition get_monetization_status ::
    "datetime \<Rightarrow> datetime \<Rightarrow> datetime \<Rightarrow> datetime \<Rightarrow> user_doc \<Rightarrow> db \<Rightarrow> dict" where
  "get_monetization_status utcnow_start utcnow_cmp utcnow_sub utcnow_month current_user d =
     (let user_id = u_id current_user;
          is_premium = u_is_premium current_user;
          subscription_type = u_subscription_type current_user;
          trial_start_date =
            (case u_trial_start_date current_user of None \<Rightarrow> utcnow_start | Some t \<Rightarrow> t);
          active_child_id = u_active_child_id current_user;
          days_left = trial_days_left current_user utcnow_cmp utcnow_sub;
          this_month = questions_this_month user_id utcnow_month d;
          is_post_trial_setup_required =
            (\<not> is_premium \<and> days_left \<le> 0 \<and> active_child_id = None);
          popup_frequency =
            (if \<not> is_premium then
               (if days_left \<le> 0 then
                  (if is_post_trial_setup_required then ''child_selection''
                   else if this_month \<ge> 1 then ''monthly_limit''
                   else ''none'')
                else ''none'')
             else ''none'')
      in [(''is_premium'', JBool is_premium),
          (''trial_days_left'', JInt days_left),
          (''questions_asked'', JInt this_month),
          (''questions_this_month'', JInt this_month),
          (''popup_frequency'', JStr popup_frequency),
          (''trial_start_date'', JTime trial_start_date),
          (''last_popup_shown'',
             JStr (case u_last_popup_shown current_user of None \<Rightarrow> [] | Some s \<Rightarrow> s)),
          (''subscription_type'', opt_str subscription_type),
          (''active_child_id'', opt_oid active_child_id),
          (''is_post_trial_setup_required'', JBool is_post_trial_setup_required)])"

subsection \<open>\<open>submit_feedback\<close>\<close>

definition regenerate_fallback_answer :: "string \<Rightarrow> string" where
  "regenerate_fallback_answer child_name =
     ''Bonjour '' @ child_name @ '', je n'ai pas pu r'' @ [CHR 0xE9] @ ''g'' @ [CHR 0xE9]
       @ ''n'' @ [CHR 0xE9] @ ''rer ma r'' @ [CHR 0xE9] @ ''ponse. Peux-tu me redemander ?''"

definition plus_infos_user_message :: "string \<Rightarrow> string" where
  "plus_infos_user_message question =
     ''Ajoute une section 'Plus d'infos' p'' @ [CHR 0xE9]
       @ ''dagogique pour cette question : '' @ question"

text \<open>
  The body of the \<open>try\<close> block that regenerates an answer. The result is \<open>None\<close> when
  an exception reaches the enclosing \<open>except\<close>: the secondary call raises, the client is
  \<open>None\<close> (both attribute accesses raise, and nothing is sent), or the elaboration
  content is \<open>None\<close> (its \<open>len\<close> raises). Otherwise it is the answer to store.
\<close>

definition regenerate_response ::
    "provider option \<Rightarrow> datetime \<Rightarrow> FeedbackKind \<Rightarrow> child_doc \<Rightarrow> response_doc
      \<Rightarrow> string option \<times> completion_request list" where
  "regenerate_response openai_client now feedback child response_doc =
     (let age_years = calculate_child_age_years now (c_birth_month child) (c_birth_year child)
      in case openai_client of
           None \<Rightarrow> (None, [])
         | Some prov \<Rightarrow>
             if feedback = NeedMoreDetails then
               (case try_gpt5_then_gpt4o prov (PlusInfosSystemMessage (c_name child))
                       (plus_infos_user_message (r_question response_doc)) of
                  (Raises, sent) \<Rightarrow> (None, sent)
                | (Content None, sent) \<Rightarrow> (None, sent)
                | (Content (Some plus_infos_section), sent) \<Rightarrow>
                    let original_response = r_answer response_doc;
                        new_answer = fmt original_response @ [CHR 0x0A, CHR 0x0A]
                          @ plus_infos_section
                    in (Some (if is_blank (Some new_answer)
                              then regenerate_fallback_answer (c_name child)
                              else new_answer), sent))
             else
               (case try_gpt5_then_gpt4o prov
                       (generate_advanced_system_message (c_name child) (c_gender child)
                          age_years (complexity_of child))
                       (r_question response_doc) of
                  (Raises, sent) \<Rightarrow> (None, sent)
                | (Content None, sent) \<Rightarrow> (Some (regenerate_fallback_answer (c_name child)), sent)
                | (Content (Some new_answer), sent) \<Rightarrow>
                    (Some (if is_blank (Some new_answer)
                           then regenerate_fallback_answer (c_name child)
                           else new_answer), sent)))"

definition submit_feedback ::
    "provider option \<Rightarrow> datetime \<Rightarrow> datetime \<Rightarrow> oid \<Rightarrow> FeedbackKind \<Rightarrow> user_doc \<Rightarrow> db
      \<Rightarrow> (http_error + dict) \<times> db \<times> completion_request list" where
  "submit_feedback openai_client utcnow now response_id feedback current_user d =
     (let user_id = u_id current_user;
          is_premium = u_is_premium current_user;
          trial_active = is_trial_active current_user utcnow
      in if \<not> is_premium \<and> \<not> trial_active \<and> feedback \<in> {TooComplex, NeedMoreDetails}
         then (Inl (HTTPException 402 ''Feedback buttons available in premium version only''),
                d, [])
         else
           case find (\<lambda>r. r_id r = response_id \<and> r_parent_id r = user_id) (responses d) of
             None \<Rightarrow> (Inl (HTTPException 404 ''Response not found''), d, [])
           | Some response_doc \<Rightarrow>
           (case find (\<lambda>c. c_id c = r_child_id response_doc \<and> c_parent_id c = user_id)
                  (children d) of
             None \<Rightarrow> (Inl (HTTPException 404 ''Child not found''), d, [])
           | Some child0 \<Rightarrow>
               let complexity_change =
                     (case feedback of TooComplex \<Rightarrow> - 1 | NeedMoreDetails \<Rightarrow> 1
                      | Understood \<Rightarrow> (0::int));
                   regenerate = (feedback \<noteq> Understood);
                   new_level = max (- 2) (min 2 (complexity_of child0 + complexity_change));
                   child = (if complexity_change \<noteq> 0
                            then child0\<lparr>c_complexity_level := Some new_level\<rparr> else child0);
                   d1 = (if complexity_change \<noteq> 0
                         then d\<lparr>children := update_one
                                (\<lambda>c. c_id c = r_child_id response_doc)
                                (\<lambda>c. c\<lparr>c_complexity_level := Some new_level\<rparr>) (children d)\<rparr>
                         else d);
                   d2 = d1\<lparr>responses := update_one (\<lambda>r. r_id r = response_id)
                          (\<lambda>r. r\<lparr>r_feedback := Some feedback,
                                 r_feedback_timestamp := Some utcnow\<rparr>) (responses d1)\<rparr>;
                   result = [(''success'', JBool True), (''regenerate'', JBool regenerate)]
               in if regenerate then
                    (case regenerate_response openai_client now feedback child response_doc of
                       (Some new_answer, sent) \<Rightarrow>
                         (Inr (AList.update ''new_response''
                                 (JObj [(''id'', JInt (int response_id)),
                                    (''question'', JStr (r_question response_doc)),
                                    (''answer'', JStr new_answer),
                                    (''child_id'', JInt (int (r_child_id response_doc))),
                                    (''child_name'', JStr (c_name child)),
                                    (''complexity_level'', JInt (complexity_of child))])
                                 result),
                          d2\<lparr>responses := update_one (\<lambda>r. r_id r = response_id)
                               (\<lambda>r. r\<lparr>r_answer := Some new_answer, r_regenerated := True,
                                      r_regenerated_timestamp := Some utcnow\<rparr>) (responses d2)\<rparr>,
                          sent)
                     | (None, sent) \<Rightarrow>
                         (Inr (AList.update ''error'' (JStr ''Could not regenerate response'')
                                 (AList.update ''regenerate'' (JBool False) result)),
                          d2, sent))
                  else (Inr result, d2, [])))"

text \<open>A run of feedback requests; the result lists the database after each request.\<close>

record feedback_event =
  fe_client :: "provider option"
  fe_utcnow :: datetime
  fe_now :: datetime
  fe_response_id :: oid
  fe_feedback :: FeedbackKind
  fe_user :: user_doc

definition apply_feedback :: "feedback_event \<Rightarrow> db \<Rightarrow> db" where
  "apply_feedback e d =
     fst (snd (submit_feedback (fe_client e) (fe_utcnow e) (fe_now e) (fe_response_id e)
       (fe_feedback e) (fe_user e) d))"

fun feedback_trace :: "feedback_event list \<Rightarrow> db \<Rightarrow> db list" where
  "feedback_trace [] d = []"
| "feedback_trace (e # es) d = apply_feedback e d # feedback_trace es (apply_feedback e d)"

subsection \<open>Notions used in the properties\<close>

definition levels_in_range :: "db \<Rightarrow> bool" where
  "levels_in_range d = list_all (\<lambda>c. - 2 \<le> complexity_of c \<and> complexity_of c \<le> 2) (children d)"

definition child_level :: "db \<Rightarrow> oid \<Rightarrow> int option" where
  "child_level d cid = map_option complexity_of (find (\<lambda>c. c_id c = cid) (children d))"

definition children_count :: "oid \<Rightarrow> db \<Rightarrow> int" where
  "children_count user_id d = count_documents (\<lambda>c. c_parent_id c = user_id) (children d)"

text \<open>The account is neither premium nor in its trial: the post-trial free tier.\<close>

definition post_trial_free :: "user_doc \<Rightarrow> datetime \<Rightarrow> bool" where
  "post_trial_free current_user utcnow =
     (\<not> u_is_premium current_user \<and> \<not> is_trial_active current_user utcnow)"

text \<open>The spec's reading of the days left in a trial: the duration rounded up to days.\<close>

definition spec_days_left_ceiling :: "timedelta \<Rightarrow> int" where
  "spec_days_left_ceiling td = - ((- td) div US_PER_DAY)"

text \<open>
  Two intermediate values of \<open>submit_feedback\<close> for a feedback \<open>k\<close> other than
  \<open>understood\<close>: the local copy of the child after the level change, and the database
  as it stands when regeneration starts (level and feedback written).
\<close>

definition adjusted :: "FeedbackKind \<Rightarrow> child_doc \<Rightarrow> child_doc" where
  "adjusted k c = c\<lparr>c_complexity_level := Some (max (- 2) (min 2 (complexity_of c
              + (if k = TooComplex then - 1 else 1))))\<rparr>"

definition committed :: "datetime \<Rightarrow> oid \<Rightarrow> FeedbackKind \<Rightarrow> response_doc \<Rightarrow> child_doc \<Rightarrow> db \<Rightarrow> db" where
  "committed utcnow rid k r c d =
     d\<lparr>children := update_one (\<lambda>x. c_id x = r_child_id r)
          (\<lambda>x. x\<lparr>c_complexity_level := Some (max (- 2) (min 2 (complexity_of c
              + (if k = TooComplex then - 1 else 1))))\<rparr>) (children d),
       responses := update_one (\<lambda>x. r_id x = rid)
          (\<lambda>x. x\<lparr>r_feedback := Some k, r_feedback_timestamp := Some utcnow\<rparr>) (responses d)\<rparr>"

text \<open>
  The generation step of \<open>ask_question\<close> (its nested \<open>try\<close> blocks), the system
  message it builds and the response document it inserts, named so that the properties
  can refer to them.
\<close>

definition ask_generate ::
    "provider option \<Rightarrow> instruction \<Rightarrow> string \<Rightarrow> string
      \<Rightarrow> string option \<times> completion_request list" where
  "ask_generate openai_client system_message question child_name =
     (case openai_client of
        None \<Rightarrow> (Some (ask_fallback_answer child_name), [])
      | Some prov \<Rightarrow>
          (case try_gpt5_then_gpt4o prov system_message question of
             (Content c, sent) \<Rightarrow> (c, sent)
           | (Raises, sent) \<Rightarrow> (Some (ask_fallback_answer child_name), sent)))"

definition ask_system_message :: "datetime \<Rightarrow> child_doc \<Rightarrow> instruction" where
  "ask_system_message now child =
     generate_advanced_system_message (c_name child) (c_gender child)
       (calculate_child_age_years now (c_birth_month child) (c_birth_year child))
       (complexity_of child)"

definition ask_new_response ::
    "datetime \<Rightarrow> datetime \<Rightarrow> QuestionRequest \<Rightarrow> user_doc \<Rightarrow> child_doc \<Rightarrow> oid
      \<Rightarrow> string option \<Rightarrow> response_doc" where
  "ask_new_response utcnow now request current_user child response_id ai_answer =
     \<lparr>r_id = response_id, r_question = qr_question request, r_answer = ai_answer,
      r_child_id = qr_child_id request, r_child_name = c_name child,
      r_child_age_months = calculate_age_months now (c_birth_year child) (c_birth_month child),
      r_parent_id = u_id current_user, r_user_id = None, r_created_at = utcnow,
      r_feedback = None, r_feedback_timestamp = None, r_regenerated = False,
      r_regenerated_timestamp = None\<rparr>"

subsection \<open>Sample data\<close>

text \<open>
  A small database on which the handlers are evaluated: one account whose trial ended on
  1 January 2025, with one child and one stored response, and clock readings in
  December 2024 (twelve hours and one microsecond before the end of the trial), one
  microsecond after the end, and in March 2025.
\<close>

definition mk_datetime :: "int \<Rightarrow> int \<Rightarrow> int \<Rightarrow> int \<Rightarrow> int \<Rightarrow> int \<Rightarrow> int \<Rightarrow> datetime" where
  "mk_datetime y m d h mi s us =
     \<lparr>dt_year = y, dt_month = m, dt_day = d, dt_hour = h, dt_minute = mi, dt_second = s,
      dt_microsecond = us\<rparr>"

definition t_trial_end :: datetime where
  "t_trial_end = mk_datetime 2025 1 1 0 0 0 0"

definition t_march :: datetime where
  "t_march = mk_datetime 2025 3 15 10 30 0 0"

definition t_march_later :: datetime where
  "t_march_later = mk_datetime 2025 3 16 9 0 0 0"

definition t_december :: datetime where
  "t_december = mk_datetime 2024 12 31 12 0 0 0"

definition t_just_before :: datetime where
  "t_just_before = mk_datetime 2024 12 31 23 59 59 999999"

definition t_just_after :: datetime where
  "t_just_after = mk_datetime 2025 1 1 0 0 0 1"

definition free_user :: user_doc where
  "free_user = \<lparr>u_id = 1, u_is_premium = False, u_trial_end_date = Some t_trial_end,
     u_trial_start_date = None, u_active_child_id = Some 10, u_subscription_type = None,
     u_last_popup_shown = None, u_questions_asked = 0\<rparr>"

definition premium_user :: user_doc where
  "premium_user = free_user\<lparr>u_is_premium := True, u_active_child_id := None\<rparr>"

definition last_day_user :: user_doc where
  "last_day_user = free_user\<lparr>u_active_child_id := None\<rparr>"

definition lea :: child_doc where
  "lea = \<lparr>c_id = 10, c_name = ''Lea'', c_gender = Girl, c_birth_month = 5,
     c_birth_year = 2019, c_complexity_level = Some 2, c_parent_id = 1,
     c_created_at = t_december\<rparr>"

definition tom :: ChildCreate where
  "tom = \<lparr>cc_name = ''Tom'', cc_gender = Boy, cc_birth_month = 8, cc_birth_year = 2020,
     cc_complexity_level = 0\<rparr>"

definition stored_response :: response_doc where
  "stored_response = \<lparr>r_id = 20, r_question = ''Pourquoi le ciel est bleu ?'',
     r_answer = Some ''Le ciel est bleu.'', r_child_id = 10, r_child_name = ''Lea'',
     r_child_age_months = 67, r_parent_id = 1, r_user_id = None, r_created_at = t_december,
     r_feedback = None, r_feedback_timestamp = None, r_regenerated = False,
     r_regenerated_timestamp = None\<rparr>"

definition sample_db :: db where
  "sample_db = \<lparr>users = [free_user], children = [lea], responses = [stored_response],
     next_oid = 21\<rparr>"

definition empty_db :: db where
  "empty_db = \<lparr>users = [free_user], children = [lea], responses = [], next_oid = 21\<rparr>"

definition blank_db :: db where
  "blank_db = sample_db\<lparr>responses := [stored_response\<lparr>r_answer := Some '' ''\<rparr>]\<rparr>"

definition full_db :: db where
  "full_db = empty_db\<lparr>children :=
     [lea, lea\<lparr>c_id := 11\<rparr>, lea\<lparr>c_id := 12\<rparr>, lea\<lparr>c_id := 13\<rparr>]\<rparr>"

definition sample_question :: QuestionRequest where
  "sample_question = \<lparr>qr_question = ''Pourquoi la mer est bleue ?'', qr_child_id = 10\<rparr>"

text \<open>
  Providers: one that answers at once, one whose primary model raises, one that is down,
  and one whose primary model raises and whose secondary returns the empty string.
\<close>

definition prov_ok :: provider where
  "prov_ok r = Content (Some ''Parce que la lumiere se disperse.'')"


definition prov_down :: provider where
  "prov_down r = Raises"

definition prov_empty_fallback :: provider where
  "prov_empty_fallback r = (case cr_model r of GPT5 \<Rightarrow> Raises | GPT4o \<Rightarrow> Content (Some []))"

text \<open>The database after a first question, and a run of feedback requests sent without a client.\<close>

definition after_first_question :: db where
  "after_first_question =
     fst (snd (ask_question (Some prov_ok) t_march t_march sample_question free_user empty_db))"

definition sample_event :: "FeedbackKind \<Rightarrow> feedback_event" where
  "sample_event k = \<lparr>fe_client = None, fe_utcnow = t_march, fe_now = t_march,
     fe_response_id = 20, fe_feedback = k, fe_user = premium_user\<rparr>"

definition sample_events :: "feedback_event list" where
  "sample_events = map sample_event
     [TooComplex, TooComplex, NeedMoreDetails, NeedMoreDetails, NeedMoreDetails]"

section \<open>Properties\<close>

subsection \<open>The limit of four children\<close>

lemma children_count_append:
  "children_count uid (d\<lparr>children := children d @ [c], next_oid := n\<rparr>)
     = children_count uid d + (if c_parent_id c = uid then 1 else 0)"
  by (simp add: children_count_def count_documents_def)

lemma create_child_count_le:
  assumes "\<forall>uid. children_count uid d \<le> 4"
  shows "\<forall>uid. children_count uid (snd (create_child utcnow now cd u d)) \<le> 4"
proof
  fix uid
  show "children_count uid (snd (create_child utcnow now cd u d)) \<le> 4"
  proof (cases "children_count (u_id u) d \<ge> 4")
    case True
    then show ?thesis using assms
      by (simp add: create_child_def children_count_def Let_def)
  next
    case False
    then have lt: "children_count (u_id u) d < 4" by simp
    have "snd (create_child utcnow now cd u d)
        = d\<lparr>children := children d @ [\<lparr>c_id = next_oid d, c_name = cc_name cd,
                 c_gender = cc_gender cd, c_birth_month = cc_birth_month cd,
                 c_birth_year = cc_birth_year cd,
                 c_complexity_level = Some (cc_complexity_level cd),
                 c_parent_id = u_id u, c_created_at = utcnow\<rparr>], next_oid := Suc (next_oid d)\<rparr>"
      using False by (simp add: create_child_def children_count_def Let_def)
    then show ?thesis using lt assms [rule_format, of uid]
      by (auto simp: children_count_append)
  qed
qed

lemma create_children_count_le:
  "\<forall>uid. children_count uid d \<le> 4 \<Longrightarrow> \<forall>uid. children_count uid (create_children reqs d) \<le> 4"
proof (induction reqs arbitrary: d)
  case Nil
  then show ?case by simp
next
  case (Cons r rest)
  obtain utcnow now cd u where r: "r = (utcnow, now, cd, u)" by (cases r) auto
  from Cons.prems have "\<forall>uid. children_count uid (snd (create_child utcnow now cd u d)) \<le> 4"
    by (rule create_child_count_le)
  then show ?case using Cons.IH r by simp
qed

text \<open>
  Claim C10. \<open>create_child\<close> fails with HTTP 400 "Maximum 4 children allowed" when the
  account already has four or more children, and otherwise succeeds and inserts the
  child; hence a database in which every account has at most four children stays so
  under any run of \<open>create_child\<close> requests.
\<close>

theorem create_child_limit:
  "(children_count (u_id u) d \<ge> 4 \<longrightarrow>
      create_child utcnow now cd u d
        = (Inl (HTTPException 400 ''Maximum 4 children allowed''), d))
   \<and> (children_count (u_id u) d < 4 \<longrightarrow>
        (\<exists>res. fst (create_child utcnow now cd u d) = Inr res)
        \<and> children (snd (create_child utcnow now cd u d))
            = children d @ [\<lparr>c_id = next_oid d, c_name = cc_name cd,
                 c_gender = cc_gender cd, c_birth_month = cc_birth_month cd,
                 c_birth_year = cc_birth_year cd,
                 c_complexity_level = Some (cc_complexity_level cd),
                 c_parent_id = u_id u, c_created_at = utcnow\<rparr>])
   \<and> ((\<forall>uid. children_count uid d \<le> 4) \<longrightarrow>
        (\<forall>uid. children_count uid (create_children reqs d) \<le> 4))"
proof (intro conjI impI)
  assume "children_count (u_id u) d \<ge> 4"
  then show "create_child utcnow now cd u d
        = (Inl (HTTPException 400 ''Maximum 4 children allowed''), d)"
    by (simp add: create_child_def children_count_def Let_def)
next
  assume "children_count (u_id u) d < 4"
  then show "\<exists>res. fst (create_child utcnow now cd u d) = Inr res"
    by (simp add: create_child_def children_count_def Let_def)
next
  assume "children_count (u_id u) d < 4"
  then show "children (snd (create_child utcnow now cd u d))
            = children d @ [\<lparr>c_id = next_oid d, c_name = cc_name cd,
                 c_gender = cc_gender cd, c_birth_month = cc_birth_month cd,
                 c_birth_year = cc_birth_year cd,
                 c_complexity_level = Some (cc_complexity_level cd),
                 c_parent_id = u_id u, c_created_at = utcnow\<rparr>]"
    by (simp add: create_child_def children_count_def Let_def)
next
  assume "\<forall>uid. children_count uid d \<le> 4"
  then show "\<forall>uid. children_count uid (create_children reqs d) \<le> 4"
    by (rule create_children_count_le)
qed

lemma children_count_full_db: "children_count uid full_db = (if uid = 1 then 4 else 0)"
  by (simp add: children_count_def count_documents_def full_db_def empty_db_def lea_def)

lemma children_count_empty_db: "children_count uid empty_db = (if uid = 1 then 1 else 0)"
  by (simp add: children_count_def count_documents_def empty_db_def lea_def)

theorem create_child_limit_witness:
  "children_count (u_id free_user) full_db \<ge> 4
   \<and> fst (create_child t_march t_march tom free_user full_db)
       = Inl (HTTPException 400 ''Maximum 4 children allowed'')
   \<and> children_count (u_id free_user) empty_db < 4
   \<and> map c_name (children (snd (create_child t_march t_march tom free_user empty_db)))
       = [''Lea'', ''Tom'']
   \<and> (\<forall>uid. children_count uid empty_db \<le> 4)
   \<and> (\<forall>uid. children_count uid (create_children
          [(t_march, t_march, tom, free_user), (t_march, t_march, tom, free_user),
           (t_march, t_march, tom, free_user), (t_march, t_march, tom, free_user),
           (t_march, t_march, tom, free_user)] empty_db) \<le> 4)"
proof -
  have u: "u_id free_user = 1" by (simp add: free_user_def)
  have h1: "children_count (u_id free_user) full_db \<ge> 4"
    by (simp add: children_count_full_db u)
  have h2: "children_count (u_id free_user) empty_db < 4"
    by (simp add: children_count_empty_db u)
  have h3: "\<forall>uid. children_count uid empty_db \<le> 4"
    by (simp add: children_count_empty_db)
  note a = create_child_limit [of free_user full_db t_march t_march tom "[]"]
  note b = create_child_limit [of free_user empty_db t_march t_march tom
          "[(t_march, t_march, tom, free_user), (t_march, t_march, tom, free_user),
           (t_march, t_march, tom, free_user), (t_march, t_march, tom, free_user),
           (t_march, t_march, tom, free_user)]"]
  from a h1 have c1: "fst (create_child t_march t_march tom free_user full_db)
       = Inl (HTTPException 400 ''Maximum 4 children allowed'')" by simp
  from b h2 have c2: "map c_name (children (snd (create_child t_march t_march tom free_user empty_db)))
       = [''Lea'', ''Tom'']" by (simp add: empty_db_def lea_def tom_def)
  from b h3 have c3: "\<forall>uid. children_count uid (create_children
          [(t_march, t_march, tom, free_user), (t_march, t_march, tom, free_user),
           (t_march, t_march, tom, free_user), (t_march, t_march, tom, free_user),
           (t_march, t_march, tom, free_user)] empty_db) \<le> 4" by blast
  from h1 c1 h2 c2 h3 c3 show ?thesis by blast
qed

subsection \<open>The cases of \<open>submit_feedback\<close>\<close>

lemma gate_iff: "k \<in> {TooComplex, NeedMoreDetails} \<longleftrightarrow> k \<noteq> Understood"
  by (cases k) auto

lemma submit_feedback_gated:
  assumes "post_trial_free u utcnow" "k \<noteq> Understood"
  shows "submit_feedback cl utcnow now rid k u d
    = (Inl (HTTPException 402 ''Feedback buttons available in premium version only''), d, [])"
  using assms by (cases k) (simp_all add: submit_feedback_def post_trial_free_def)

lemma submit_feedback_no_response:
  assumes "\<not> (post_trial_free u utcnow \<and> k \<noteq> Understood)"
    and "find (\<lambda>r. r_id r = rid \<and> r_parent_id r = u_id u) (responses d) = None"
  shows "submit_feedback cl utcnow now rid k u d
    = (Inl (HTTPException 404 ''Response not found''), d, [])"
  using assms by (cases k) (auto simp add: submit_feedback_def post_trial_free_def)

lemma submit_feedback_no_child:
  assumes "\<not> (post_trial_free u utcnow \<and> k \<noteq> Understood)"
    and "find (\<lambda>r. r_id r = rid \<and> r_parent_id r = u_id u) (responses d) = Some r"
    and "find (\<lambda>c. c_id c = r_child_id r \<and> c_parent_id c = u_id u) (children d) = None"
  shows "submit_feedback cl utcnow now rid k u d
    = (Inl (HTTPException 404 ''Child not found''), d, [])"
  using assms by (cases k) (auto simp add: submit_feedback_def post_trial_free_def)

lemma submit_feedback_understood:
  assumes "find (\<lambda>r. r_id r = rid \<and> r_parent_id r = u_id u) (responses d) = Some r"
    and "find (\<lambda>c. c_id c = r_child_id r \<and> c_parent_id c = u_id u) (children d) = Some c"
  shows "submit_feedback cl utcnow now rid Understood u d
    = (Inr [(''success'', JBool True), (''regenerate'', JBool False)],
       d\<lparr>responses := update_one (\<lambda>r. r_id r = rid)
            (\<lambda>r. r\<lparr>r_feedback := Some Understood, r_feedback_timestamp := Some utcnow\<rparr>)
            (responses d)\<rparr>, [])"
  using assms by (simp add: submit_feedback_def)

lemma submit_feedback_regenerate:
  assumes "\<not> post_trial_free u utcnow" "k \<noteq> Understood"
    and "find (\<lambda>r. r_id r = rid \<and> r_parent_id r = u_id u) (responses d) = Some r"
    and "find (\<lambda>c. c_id c = r_child_id r \<and> c_parent_id c = u_id u) (children d) = Some c"
  shows "submit_feedback cl utcnow now rid k u d
    = (case regenerate_response cl now k (adjusted k c) r of
         (Some new_answer, sent) \<Rightarrow>
           (Inr [(''success'', JBool True), (''regenerate'', JBool True),
                 (''new_response'', JObj [(''id'', JInt (int rid)),
                    (''question'', JStr (r_question r)),
                    (''answer'', JStr new_answer),
                    (''child_id'', JInt (int (r_child_id r))),
                    (''child_name'', JStr (c_name c)),
                    (''complexity_level'', JInt (complexity_of (adjusted k c)))])],
            (committed utcnow rid k r c d)\<lparr>responses := update_one (\<lambda>x. r_id x = rid)
                (\<lambda>x. x\<lparr>r_answer := Some new_answer, r_regenerated := True,
                       r_regenerated_timestamp := Some utcnow\<rparr>)
                (responses (committed utcnow rid k r c d))\<rparr>,
            sent)
       | (None, sent) \<Rightarrow>
           (Inr [(''success'', JBool True), (''regenerate'', JBool False),
                 (''error'', JStr ''Could not regenerate response'')],
            committed utcnow rid k r c d, sent))"
proof -
  obtain a sent where rr: "regenerate_response cl now k (adjusted k c) r = (a, sent)"
    by (cases "regenerate_response cl now k (adjusted k c) r") auto
  show ?thesis
    using assms rr
    by (cases k; cases a)
       (simp_all add: submit_feedback_def post_trial_free_def committed_def adjusted_def
          Let_def)
qed

subsection \<open>Queries and updates on a collection\<close>

lemma map_update_one:
  "(\<And>x. g (f x) = g x) \<Longrightarrow> map g (update_one P f xs) = map g xs"
  by (induction xs) auto

lemma find_update_one:
  "(\<And>x. P x \<Longrightarrow> P (f x)) \<Longrightarrow> find P (update_one P f xs) = map_option f (find P xs)"
  by (induction xs) auto

lemma find_distinct_key:
  "distinct (map key xs) \<Longrightarrow> find (\<lambda>x. key x = k \<and> Q x) xs = Some y
     \<Longrightarrow> find (\<lambda>x. key x = k) xs = Some y"
proof (induction xs)
  case Nil
  then show ?case by simp
next
  case (Cons x xs)
  show ?case
  proof (cases "key x = k")
    case True
    have "Q x"
    proof (rule ccontr)
      assume "\<not> Q x"
      with Cons.prems True have "find (\<lambda>x. key x = k \<and> Q x) xs = Some y" by simp
      then have "y \<in> set xs" "key y = k" by (auto simp: find_Some_iff)
      with True have "key x \<in> set (map key xs)" by (metis image_eqI list.set_map)
      with Cons.prems(1) show False by simp
    qed
    with Cons.prems True show ?thesis by simp
  next
    case False
    with Cons show ?thesis by simp
  qed
qed

subsection \<open>The feedback gate\<close>

text \<open>
  Claim C6. \<open>submit_feedback\<close> rejects with HTTP 402 exactly when the account is neither
  premium nor in its trial and the feedback is \<open>too_complex\<close> or
  \<open>need_more_details\<close>; the kind \<open>understood\<close> is never rejected with 402, whatever the
  tier.
\<close>

theorem feedback_kind_gate:
  "((\<exists>msg. fst (submit_feedback cl utcnow now rid k u d) = Inl (HTTPException 402 msg))
      \<longleftrightarrow> (\<not> u_is_premium u \<and> \<not> is_trial_active u utcnow
            \<and> k \<in> {TooComplex, NeedMoreDetails}))
   \<and> (k = Understood \<longrightarrow>
        (\<forall>msg. fst (submit_feedback cl utcnow now rid k u d) \<noteq> Inl (HTTPException 402 msg)))"
proof -
  let ?gated = "post_trial_free u utcnow \<and> k \<noteq> Understood"
  have yes: "?gated \<Longrightarrow>
      \<exists>msg. fst (submit_feedback cl utcnow now rid k u d) = Inl (HTTPException 402 msg)"
    by (simp add: submit_feedback_gated)
  have no: "\<forall>msg. fst (submit_feedback cl utcnow now rid k u d) \<noteq> Inl (HTTPException 402 msg)"
    if ng: "\<not> ?gated"
  proof (cases "find (\<lambda>r. r_id r = rid \<and> r_parent_id r = u_id u) (responses d)")
    case None
    with ng show ?thesis by (simp add: submit_feedback_no_response)
  next
    case (Some r)
    show ?thesis
    proof (cases "find (\<lambda>c. c_id c = r_child_id r \<and> c_parent_id c = u_id u) (children d)")
      case None
      with ng Some show ?thesis by (simp add: submit_feedback_no_child)
    next
      case (Some c)
      show ?thesis
      proof (cases "k = Understood")
        case True
        with \<open>find _ (responses d) = Some r\<close> Some show ?thesis
          by (simp add: submit_feedback_understood)
      next
        case False
        with ng have "\<not> post_trial_free u utcnow" by simp
        from submit_feedback_regenerate [OF this False \<open>find _ (responses d) = Some r\<close> Some]
        show ?thesis by (simp split: prod.splits option.splits)
      qed
    qed
  qed
  have g: "?gated \<longleftrightarrow> (\<not> u_is_premium u \<and> \<not> is_trial_active u utcnow
            \<and> k \<in> {TooComplex, NeedMoreDetails})"
    by (cases k) (auto simp: post_trial_free_def)
  from yes no g show ?thesis by blast
qed

theorem feedback_kind_gate_witness:
  "\<not> u_is_premium free_user \<and> \<not> is_trial_active free_user t_march
   \<and> fst (submit_feedback (Some prov_ok) t_march t_march 20 TooComplex free_user sample_db)
       = Inl (HTTPException 402 ''Feedback buttons available in premium version only'')
   \<and> fst (submit_feedback (Some prov_ok) t_march t_march 20 Understood free_user sample_db)
       = Inr [(''success'', JBool True), (''regenerate'', JBool False)]"
proof -
  have h: "\<not> u_is_premium free_user \<and> \<not> is_trial_active free_user t_march"
    by (simp add: free_user_def is_trial_active_def dt_less_def dt_fields_def t_march_def
        t_trial_end_def mk_datetime_def)
  have a: "\<exists>msg. fst (submit_feedback (Some prov_ok) t_march t_march 20 TooComplex free_user
      sample_db) = Inl (HTTPException 402 msg)"
    using feedback_kind_gate [of "Some prov_ok" t_march t_march 20 TooComplex free_user sample_db] h
    by simp
  have b: "\<forall>msg. fst (submit_feedback (Some prov_ok) t_march t_march 20 Understood free_user
      sample_db) \<noteq> Inl (HTTPException 402 msg)"
    using feedback_kind_gate [of "Some prov_ok" t_march t_march 20 Understood free_user sample_db]
    by simp
  have c: "fst (submit_feedback (Some prov_ok) t_march t_march 20 TooComplex free_user sample_db)
       = Inl (HTTPException 402 ''Feedback buttons available in premium version only'')"
    using a h by (simp add: submit_feedback_def)
  have d: "fst (submit_feedback (Some prov_ok) t_march t_march 20 Understood free_user sample_db)
       = Inr [(''success'', JBool True), (''regenerate'', JBool False)]"
    using b by (simp add: submit_feedback_def sample_db_def stored_response_def lea_def
        free_user_def)
  from h c d show ?thesis by blast
qed

subsection \<open>Feedback \<open>understood\<close>\<close>

text \<open>
  Claim C7. A feedback of kind \<open>understood\<close> sends no request to the provider and leaves
  the children, the users and every stored answer as they were. When the response and
  its child are found, the result is \<open>success\<close> with \<open>regenerate = false\<close> and the only
  change is the feedback (and its timestamp) written on the response; otherwise the
  request is an error and the database is unchanged.
\<close>

theorem understood_changes_only_feedback:
  assumes "submit_feedback cl utcnow now rid Understood u d = (res, d', sent)"
  shows "sent = [] \<and> children d' = children d \<and> users d' = users d
     \<and> next_oid d' = next_oid d
     \<and> map r_answer (responses d') = map r_answer (responses d)
     \<and> map r_regenerated (responses d') = map r_regenerated (responses d)
     \<and> (\<forall>r c. find (\<lambda>r. r_id r = rid \<and> r_parent_id r = u_id u) (responses d) = Some r
            \<and> find (\<lambda>c. c_id c = r_child_id r \<and> c_parent_id c = u_id u) (children d) = Some c
          \<longrightarrow> res = Inr [(''success'', JBool True), (''regenerate'', JBool False)]
            \<and> responses d' = update_one (\<lambda>x. r_id x = rid)
                 (\<lambda>x. x\<lparr>r_feedback := Some Understood, r_feedback_timestamp := Some utcnow\<rparr>)
                 (responses d)
            \<and> (distinct (map r_id (responses d)) \<longrightarrow>
                 find (\<lambda>x. r_id x = rid) (responses d')
                   = Some (r\<lparr>r_feedback := Some Understood,
                              r_feedback_timestamp := Some utcnow\<rparr>)))
     \<and> ((\<forall>r. find (\<lambda>r. r_id r = rid \<and> r_parent_id r = u_id u) (responses d) = Some r
            \<longrightarrow> find (\<lambda>c. c_id c = r_child_id r \<and> c_parent_id c = u_id u) (children d) = None)
          \<longrightarrow> (\<exists>e. res = Inl e) \<and> d' = d)"
proof (cases "find (\<lambda>r. r_id r = rid \<and> r_parent_id r = u_id u) (responses d)")
  case None
  with assms show ?thesis by (auto simp add: submit_feedback_no_response)
next
  case (Some r)
  show ?thesis
  proof (cases "find (\<lambda>c. c_id c = r_child_id r \<and> c_parent_id c = u_id u) (children d)")
    case None
    with assms Some show ?thesis by (auto simp add: submit_feedback_no_child)
  next
    case c: (Some c)
    let ?f = "\<lambda>x. x\<lparr>r_feedback := Some Understood, r_feedback_timestamp := Some utcnow\<rparr>"
    from assms submit_feedback_understood [OF Some c, of cl utcnow now]
    have res: "res = Inr [(''success'', JBool True), (''regenerate'', JBool False)]"
      and d': "d' = d\<lparr>responses := update_one (\<lambda>x. r_id x = rid) ?f (responses d)\<rparr>"
      and sent: "sent = []" by simp_all
    have ans: "map r_answer (responses d') = map r_answer (responses d)"
      unfolding d' by (simp add: map_update_one)
    have reg: "map r_regenerated (responses d') = map r_regenerated (responses d)"
      unfolding d' by (simp add: map_update_one)
    have fnd: "find (\<lambda>x. r_id x = rid) (responses d') = Some (?f r)"
      if "distinct (map r_id (responses d))"
    proof -
      from find_distinct_key [OF that Some]
      have "find (\<lambda>x. r_id x = rid) (responses d) = Some r" .
      then show ?thesis unfolding d' by (simp add: find_update_one)
    qed
    from res d' sent ans reg fnd Some c show ?thesis by simp
  qed
qed

theorem understood_changes_only_feedback_witness:
  "submit_feedback (Some prov_ok) t_march t_march 20 Understood free_user sample_db
     = (Inr [(''success'', JBool True), (''regenerate'', JBool False)],
        sample_db\<lparr>responses := [stored_response\<lparr>r_feedback := Some Understood,
          r_feedback_timestamp := Some t_march\<rparr>]\<rparr>, [])
   \<and> children (sample_db\<lparr>responses := [stored_response\<lparr>r_feedback := Some Understood,
          r_feedback_timestamp := Some t_march\<rparr>]\<rparr>) = children sample_db
   \<and> map r_answer (responses (sample_db\<lparr>responses := [stored_response\<lparr>r_feedback :=
          Some Understood, r_feedback_timestamp := Some t_march\<rparr>]\<rparr>)) = [Some ''Le ciel est bleu.'']"
proof -
  have e: "submit_feedback (Some prov_ok) t_march t_march 20 Understood free_user sample_db
     = (Inr [(''success'', JBool True), (''regenerate'', JBool False)],
        sample_db\<lparr>responses := [stored_response\<lparr>r_feedback := Some Understood,
          r_feedback_timestamp := Some t_march\<rparr>]\<rparr>, [])"
    by (simp add: submit_feedback_def sample_db_def stored_response_def lea_def free_user_def)
  from understood_changes_only_feedback [OF e]
  have "children (sample_db\<lparr>responses := [stored_response\<lparr>r_feedback := Some Understood,
          r_feedback_timestamp := Some t_march\<rparr>]\<rparr>) = children sample_db"
    and "map r_answer (responses (sample_db\<lparr>responses := [stored_response\<lparr>r_feedback :=
          Some Understood, r_feedback_timestamp := Some t_march\<rparr>]\<rparr>))
          = map r_answer (responses sample_db)"
    by blast+
  with e show ?thesis by (simp add: sample_db_def stored_response_def)
qed

subsection \<open>Days left in the trial\<close>

lemma US_PER_DAY_pos: "0 < US_PER_DAY"
  by (simp add: US_PER_DAY_def)

lemmas sample_dates = t_march_def t_march_later_def t_december_def t_trial_end_def
  t_just_before_def t_just_after_def mk_datetime_def

lemmas date_defs = dt_sub_def toordinal_def days_before_year_def days_before_month_def
  is_leap_def DAYS_IN_MONTH_def US_PER_DAY_def dt_less_def dt_fields_def td_days_def

lemma status_trial_days_left:
  "map_of (get_monetization_status t0 t1 t2 t3 u d) ''trial_days_left''
     = Some (JInt (trial_days_left u t1 t2))"
  by (simp add: get_monetization_status_def Let_def)

text \<open>
  What the handler computes: when the first reading is before the trial's end, the number
  \<open>n\<close> with \<open>n\<close> days \<open>\<le>\<close> end \<open>-\<close> second reading \<open><\<close> \<open>n + 1\<close> days, that is the
  remaining time rounded down; and 0 when the first reading is not before the end or no
  end date is stored.
\<close>

lemma trial_days_left_floor:
  assumes "u_trial_end_date u = Some e" and "dt_less t1 e"
  shows "trial_days_left u t1 t2 * US_PER_DAY \<le> dt_sub e t2
     \<and> dt_sub e t2 < (trial_days_left u t1 t2 + 1) * US_PER_DAY"
proof -
  from assms have eq: "trial_days_left u t1 t2 = dt_sub e t2 div US_PER_DAY"
    by (simp add: trial_days_left_def td_days_def)
  have "dt_sub e t2 div US_PER_DAY * US_PER_DAY \<le> dt_sub e t2"
    using US_PER_DAY_pos
    by (metis Euclidean_Rings.pos_mod_sign add.commute add_0 add_le_cancel_right
        div_mult_mod_eq)
  moreover have "dt_sub e t2 < (dt_sub e t2 div US_PER_DAY + 1) * US_PER_DAY"
    using US_PER_DAY_pos
    by (metis Euclidean_Rings.pos_mod_bound add.commute add_less_cancel_left distrib_right
        div_mult_mod_eq mult_1)
  ultimately show ?thesis unfolding eq by blast
qed

lemma trial_days_left_ended:
  assumes "\<forall>e. u_trial_end_date u = Some e \<longrightarrow> \<not> dt_less t1 e"
  shows "trial_days_left u t1 t2 = 0"
  using assms by (simp add: trial_days_left_def split: option.splits)

lemma dt_sub_trial_end_december: "dt_sub t_trial_end t_december = 43200000000"
  by (simp add: sample_dates date_defs)

lemma dt_sub_trial_end_just_after: "dt_sub t_trial_end t_just_after = - 1"
  by (simp add: sample_dates date_defs)

text \<open>
  Claim C5 on the sample data. Twelve hours before the end of its trial an account that is
  not premium is in its trial (\<open>is_trial_active\<close>, the test the gates of
  \<open>ask_question\<close> and \<open>submit_feedback\<close> make), and the remaining time rounded up is
  1 day. The status reports \<open>trial_days_left = 0\<close>, and with it what the handler's own
  comments call a trial that has ended: the post-trial setup is required and the popup is
  \<open>child_selection\<close>. The claim expects 1.
\<close>

theorem trial_days_left_last_day:
  "\<not> u_is_premium last_day_user \<and> u_trial_end_date last_day_user = Some t_trial_end
   \<and> is_trial_active last_day_user t_december
   \<and> spec_days_left_ceiling (dt_sub t_trial_end t_december) = 1
   \<and> map_of (get_monetization_status t_december t_december t_december t_december
          last_day_user sample_db) ''trial_days_left'' = Some (JInt 0)
   \<and> map_of (get_monetization_status t_december t_december t_december t_december
          last_day_user sample_db) ''is_post_trial_setup_required'' = Some (JBool True)
   \<and> map_of (get_monetization_status t_december t_december t_december t_december
          last_day_user sample_db) ''popup_frequency'' = Some (JStr ''child_selection'')"
proof -
  have lt: "dt_less t_december t_trial_end"
    by (simp add: sample_dates dt_less_def dt_fields_def)
  have u: "\<not> u_is_premium last_day_user" "u_trial_end_date last_day_user = Some t_trial_end"
    "u_active_child_id last_day_user = None"
    by (simp_all add: last_day_user_def free_user_def)
  have act: "is_trial_active last_day_user t_december"
    using lt by (simp add: is_trial_active_def u)
  have ceil: "spec_days_left_ceiling (dt_sub t_trial_end t_december) = 1"
    by (simp add: spec_days_left_ceiling_def dt_sub_trial_end_december US_PER_DAY_def)
  have days: "trial_days_left last_day_user t_december t_december = 0"
    using lt by (simp add: trial_days_left_def u td_days_def dt_sub_trial_end_december
        US_PER_DAY_def)
  have st: "map_of (get_monetization_status t_december t_december t_december t_december
          last_day_user sample_db) ''trial_days_left'' = Some (JInt 0)"
    by (simp add: status_trial_days_left days)
  have req: "map_of (get_monetization_status t_december t_december t_december t_december
          last_day_user sample_db) ''is_post_trial_setup_required'' = Some (JBool True)"
    by (simp add: get_monetization_status_def Let_def days u)
  have popup: "map_of (get_monetization_status t_december t_december t_december t_december
          last_day_user sample_db) ''popup_frequency'' = Some (JStr ''child_selection'')"
    by (simp add: get_monetization_status_def Let_def days u)
  from u(1,2) act ceil st req popup show ?thesis by blast
qed

text \<open>
  When the trial ends between the two readings, the comparison still sees a running trial
  and the subtraction a negative duration: the status reports \<open>-1\<close>.
\<close>

lemma trial_days_left_between_readings:
  "dt_less t_just_before t_trial_end
   \<and> trial_days_left free_user t_just_before t_just_after = - 1"
proof -
  have lt: "dt_less t_just_before t_trial_end"
    by (simp add: sample_dates dt_less_def dt_fields_def)
  then show ?thesis
    by (simp add: trial_days_left_def free_user_def td_days_def dt_sub_trial_end_just_after
        US_PER_DAY_def)
qed

subsection \<open>Regeneration that fails\<close>

lemma try_chain_primary_failed:
  assumes "prov \<lparr>cr_model = GPT5, cr_system = sys, cr_user = usr\<rparr> = Raises
     \<or> (\<exists>a. prov \<lparr>cr_model = GPT5, cr_system = sys, cr_user = usr\<rparr> = Content a \<and> is_blank a)"
  shows "try_gpt5_then_gpt4o prov sys usr
    = (prov \<lparr>cr_model = GPT4o, cr_system = sys, cr_user = usr\<rparr>,
       [\<lparr>cr_model = GPT5, cr_system = sys, cr_user = usr\<rparr>,
        \<lparr>cr_model = GPT4o, cr_system = sys, cr_user = usr\<rparr>])"
  using assms by (auto simp: try_gpt5_then_gpt4o_def Let_def)

lemma try_chain_primary_ok:
  assumes "prov \<lparr>cr_model = GPT5, cr_system = sys, cr_user = usr\<rparr> = Content a" "\<not> is_blank a"
  shows "try_gpt5_then_gpt4o prov sys usr
    = (Content a, [\<lparr>cr_model = GPT5, cr_system = sys, cr_user = usr\<rparr>])"
  using assms by (simp add: try_gpt5_then_gpt4o_def Let_def)

lemma committed_answers:
  "map r_answer (responses (committed utcnow rid k r c d)) = map r_answer (responses d)"
  by (simp add: committed_def map_update_one)

lemma committed_child_level:
  assumes "distinct (map c_id (children d))"
    and "find (\<lambda>x. c_id x = r_child_id r \<and> c_parent_id x = uid) (children d) = Some c"
  shows "child_level (committed utcnow rid k r c d) (c_id c)
     = Some (max (- 2) (min 2 (complexity_of c + (if k = TooComplex then - 1 else 1))))"
proof -
  from assms(2) have cid: "c_id c = r_child_id r" by (auto simp: find_Some_iff)
  from find_distinct_key [OF assms] have "find (\<lambda>x. c_id x = r_child_id r) (children d) = Some c" .
  then show ?thesis
    by (simp add: child_level_def committed_def cid find_update_one complexity_of_def)
qed

lemma committed_feedback:
  assumes "distinct (map r_id (responses d))"
    and "find (\<lambda>x. r_id x = rid \<and> r_parent_id x = uid) (responses d) = Some r"
  shows "find (\<lambda>x. r_id x = rid) (responses (committed utcnow rid k r c d))
     = Some (r\<lparr>r_feedback := Some k, r_feedback_timestamp := Some utcnow\<rparr>)"
proof -
  from find_distinct_key [OF assms] have "find (\<lambda>x. r_id x = rid) (responses d) = Some r" .
  then show ?thesis by (simp add: committed_def find_update_one)
qed

text \<open>
  In a \<open>need_more_details\<close> regeneration, when the primary attempt fails (the call
  raises, or its content is empty or blank) and the secondary call raises or returns no
  content, every stored answer is as before and the caller gets \<open>regenerate = false\<close>
  with the error "Could not regenerate response". Both models were asked once, with the
  same messages.
\<close>

lemma need_more_details_secondary_raises:
  assumes "\<not> post_trial_free u utcnow"
    and "find (\<lambda>r. r_id r = rid \<and> r_parent_id r = u_id u) (responses d) = Some r"
    and "find (\<lambda>c. c_id c = r_child_id r \<and> c_parent_id c = u_id u) (children d) = Some c"
    and "prov \<lparr>cr_model = GPT5, cr_system = PlusInfosSystemMessage (c_name c),
               cr_user = plus_infos_user_message (r_question r)\<rparr> = Raises
         \<or> (\<exists>a. prov \<lparr>cr_model = GPT5, cr_system = PlusInfosSystemMessage (c_name c),
               cr_user = plus_infos_user_message (r_question r)\<rparr> = Content a \<and> is_blank a)"
    and "prov \<lparr>cr_model = GPT4o, cr_system = PlusInfosSystemMessage (c_name c),
               cr_user = plus_infos_user_message (r_question r)\<rparr> = Raises
         \<or> prov \<lparr>cr_model = GPT4o, cr_system = PlusInfosSystemMessage (c_name c),
               cr_user = plus_infos_user_message (r_question r)\<rparr> = Content None"
  shows "submit_feedback (Some prov) utcnow now rid NeedMoreDetails u d
      = (Inr [(''success'', JBool True), (''regenerate'', JBool False),
              (''error'', JStr ''Could not regenerate response'')],
         committed utcnow rid NeedMoreDetails r c d,
         [\<lparr>cr_model = GPT5, cr_system = PlusInfosSystemMessage (c_name c),
               cr_user = plus_infos_user_message (r_question r)\<rparr>,
          \<lparr>cr_model = GPT4o, cr_system = PlusInfosSystemMessage (c_name c),
               cr_user = plus_infos_user_message (r_question r)\<rparr>])
     \<and> map r_answer (responses (committed utcnow rid NeedMoreDetails r c d))
         = map r_answer (responses d)"
proof -
  have "regenerate_response (Some prov) now NeedMoreDetails (adjusted NeedMoreDetails c) r
      = (None, [\<lparr>cr_model = GPT5, cr_system = PlusInfosSystemMessage (c_name c),
               cr_user = plus_infos_user_message (r_question r)\<rparr>,
          \<lparr>cr_model = GPT4o, cr_system = PlusInfosSystemMessage (c_name c),
               cr_user = plus_infos_user_message (r_question r)\<rparr>])"
    using try_chain_primary_failed [of prov "PlusInfosSystemMessage (c_name c)"
        "plus_infos_user_message (r_question r)"] assms(4,5)
    by (auto simp add: regenerate_response_def adjusted_def Let_def)
  then show ?thesis
    using submit_feedback_regenerate [OF assms(1) _ assms(2,3), of NeedMoreDetails "Some prov" now]
    by (simp add: committed_answers)
qed

lemma need_more_details_secondary_raises_example:
  "\<not> post_trial_free premium_user t_march
   \<and> prov_down \<lparr>cr_model = GPT5, cr_system = PlusInfosSystemMessage (c_name lea),
               cr_user = plus_infos_user_message (r_question stored_response)\<rparr> = Raises
   \<and> prov_down \<lparr>cr_model = GPT4o, cr_system = PlusInfosSystemMessage (c_name lea),
               cr_user = plus_infos_user_message (r_question stored_response)\<rparr> = Raises
   \<and> fst (submit_feedback (Some prov_down) t_march t_march 20 NeedMoreDetails premium_user
          sample_db)
       = Inr [(''success'', JBool True), (''regenerate'', JBool False),
              (''error'', JStr ''Could not regenerate response'')]
   \<and> map r_answer (responses (fst (snd (submit_feedback (Some prov_down) t_march t_march 20
          NeedMoreDetails premium_user sample_db))))
       = [Some ''Le ciel est bleu.'']"
proof -
  have g: "\<not> post_trial_free premium_user t_march"
    by (simp add: post_trial_free_def premium_user_def)
  have fr: "find (\<lambda>r. r_id r = 20 \<and> r_parent_id r = u_id premium_user) (responses sample_db)
      = Some stored_response"
    by (simp add: sample_db_def stored_response_def premium_user_def free_user_def)
  have fc: "find (\<lambda>c. c_id c = r_child_id stored_response \<and> c_parent_id c = u_id premium_user)
      (children sample_db) = Some lea"
    by (simp add: sample_db_def stored_response_def premium_user_def free_user_def lea_def)
  have p1: "prov_down \<lparr>cr_model = GPT5, cr_system = PlusInfosSystemMessage (c_name lea),
               cr_user = plus_infos_user_message (r_question stored_response)\<rparr> = Raises"
    by (simp add: prov_down_def)
  have p2: "prov_down \<lparr>cr_model = GPT4o, cr_system = PlusInfosSystemMessage (c_name lea),
               cr_user = plus_infos_user_message (r_question stored_response)\<rparr> = Raises"
    by (simp add: prov_down_def)
  note t = need_more_details_secondary_raises [OF g fr fc disjI1 [OF p1] disjI1 [OF p2],
      of t_march]
  have a: "map r_answer (responses sample_db) = [Some ''Le ciel est bleu.'']"
    by (simp add: sample_db_def stored_response_def)
  from t a g p1 p2 show ?thesis by simp
qed


lemma need_more_details_without_client:
  assumes "\<not> post_trial_free u utcnow"
    and "find (\<lambda>r. r_id r = rid \<and> r_parent_id r = u_id u) (responses d) = Some r"
    and "find (\<lambda>c. c_id c = r_child_id r \<and> c_parent_id c = u_id u) (children d) = Some c"
    and "k \<noteq> Understood"
  shows "submit_feedback None utcnow now rid k u d
      = (Inr [(''success'', JBool True), (''regenerate'', JBool False),
              (''error'', JStr ''Could not regenerate response'')],
         committed utcnow rid k r c d, [])"
  using submit_feedback_regenerate [OF assms(1,4,2,3), of None now]
  by (simp add: regenerate_response_def Let_def)

text \<open>
  Claim C9. For \<open>too_complex\<close> and \<open>need_more_details\<close>, when the request is accepted
  and regeneration fails (the result carries \<open>regenerate = false\<close>), the result carries
  the error message, and the database keeps the new complexity level of the child and
  the feedback written on the response, while the stored answers are unchanged.
\<close>

theorem feedback_committed_before_regeneration:
  assumes "k \<in> {TooComplex, NeedMoreDetails}"
    and "find (\<lambda>r. r_id r = rid \<and> r_parent_id r = u_id u) (responses d) = Some r"
    and "find (\<lambda>c. c_id c = r_child_id r \<and> c_parent_id c = u_id u) (children d) = Some c"
    and "distinct (map c_id (children d))"
    and "distinct (map r_id (responses d))"
    and "submit_feedback cl utcnow now rid k u d = (Inr res, d', sent)"
    and "map_of res ''regenerate'' = Some (JBool False)"
  shows "map_of res ''error'' = Some (JStr ''Could not regenerate response'')
     \<and> child_level d' (c_id c)
         = Some (max (- 2) (min 2 (complexity_of c + (if k = TooComplex then - 1 else 1))))
     \<and> find (\<lambda>x. r_id x = rid) (responses d')
         = Some (r\<lparr>r_feedback := Some k, r_feedback_timestamp := Some utcnow\<rparr>)
     \<and> map r_answer (responses d') = map r_answer (responses d)"
proof -
  from assms(1) have k: "k \<noteq> Understood" by auto
  have ng: "\<not> post_trial_free u utcnow"
  proof
    assume "post_trial_free u utcnow"
    from submit_feedback_gated [OF this k, of cl now rid d] assms(6) show False by simp
  qed
  obtain a s where rr: "regenerate_response cl now k (adjusted k c) r = (a, s)"
    by (cases "regenerate_response cl now k (adjusted k c) r") auto
  have "a = None"
  proof (cases a)
    case None
    then show ?thesis .
  next
    case (Some x)
    with submit_feedback_regenerate [OF ng k assms(2,3), of cl now] rr assms(6,7)
    show ?thesis by auto
  qed
  with submit_feedback_regenerate [OF ng k assms(2,3), of cl now] rr assms(6)
  have res: "res = [(''success'', JBool True), (''regenerate'', JBool False),
                 (''error'', JStr ''Could not regenerate response'')]"
    and d': "d' = committed utcnow rid k r c d" by simp_all
  from res have "map_of res ''error'' = Some (JStr ''Could not regenerate response'')" by simp
  moreover have "child_level d' (c_id c)
         = Some (max (- 2) (min 2 (complexity_of c + (if k = TooComplex then - 1 else 1))))"
    unfolding d' by (rule committed_child_level [OF assms(4,3)])
  moreover have "find (\<lambda>x. r_id x = rid) (responses d')
         = Some (r\<lparr>r_feedback := Some k, r_feedback_timestamp := Some utcnow\<rparr>)"
    unfolding d' by (rule committed_feedback [OF assms(5,2)])
  moreover have "map r_answer (responses d') = map r_answer (responses d)"
    unfolding d' by (rule committed_answers)
  ultimately show ?thesis by blast
qed

theorem feedback_committed_before_regeneration_witness:
  "TooComplex \<in> {TooComplex, NeedMoreDetails}
   \<and> distinct (map c_id (children sample_db)) \<and> distinct (map r_id (responses sample_db))
   \<and> fst (submit_feedback (Some prov_down) t_march t_march 20 TooComplex premium_user sample_db)
       = Inr [(''success'', JBool True), (''regenerate'', JBool False),
              (''error'', JStr ''Could not regenerate response'')]
   \<and> child_level sample_db 10 = Some 2
   \<and> child_level (fst (snd (submit_feedback (Some prov_down) t_march t_march 20 TooComplex
         premium_user sample_db))) 10 = Some 1
   \<and> map r_feedback (responses (fst (snd (submit_feedback (Some prov_down) t_march t_march 20
         TooComplex premium_user sample_db)))) = [Some TooComplex]"
proof -
  let ?run = "submit_feedback (Some prov_down) t_march t_march 20 TooComplex premium_user sample_db"
  have fr: "find (\<lambda>r. r_id r = 20 \<and> r_parent_id r = u_id premium_user) (responses sample_db)
      = Some stored_response"
    by (simp add: sample_db_def stored_response_def premium_user_def free_user_def)
  have fc: "find (\<lambda>c. c_id c = r_child_id stored_response \<and> c_parent_id c = u_id premium_user)
      (children sample_db) = Some lea"
    by (simp add: sample_db_def stored_response_def premium_user_def free_user_def lea_def)
  have dc: "distinct (map c_id (children sample_db))" by (simp add: sample_db_def)
  have dr: "distinct (map r_id (responses sample_db))" by (simp add: sample_db_def)
  have g: "\<not> post_trial_free premium_user t_march"
    by (simp add: post_trial_free_def premium_user_def)
  have rr: "regenerate_response (Some prov_down) t_march TooComplex (adjusted TooComplex lea)
      stored_response = (None,
        [\<lparr>cr_model = GPT5, cr_system = AdvancedSystemMessage ''Lea'' Girl (5, 0) 1,
           cr_user = ''Pourquoi le ciel est bleu ?''\<rparr>,
         \<lparr>cr_model = GPT4o, cr_system = AdvancedSystemMessage ''Lea'' Girl (5, 0) 1,
           cr_user = ''Pourquoi le ciel est bleu ?''\<rparr>])"
    by (simp add: regenerate_response_def try_gpt5_then_gpt4o_def prov_down_def adjusted_def
        lea_def stored_response_def calculate_child_age_years_def complexity_of_def
        generate_advanced_system_message_def sample_dates Let_def)
  have run: "?run = (Inr [(''success'', JBool True), (''regenerate'', JBool False),
              (''error'', JStr ''Could not regenerate response'')],
         committed t_march 20 TooComplex stored_response lea sample_db,
         [\<lparr>cr_model = GPT5, cr_system = AdvancedSystemMessage ''Lea'' Girl (5, 0) 1,
           cr_user = ''Pourquoi le ciel est bleu ?''\<rparr>,
         \<lparr>cr_model = GPT4o, cr_system = AdvancedSystemMessage ''Lea'' Girl (5, 0) 1,
           cr_user = ''Pourquoi le ciel est bleu ?''\<rparr>])"
    using submit_feedback_regenerate [OF g _ fr fc, of TooComplex "Some prov_down" t_march] rr
    by simp
  have k: "TooComplex \<in> {TooComplex, NeedMoreDetails}" by simp
  have reg: "map_of [(''success'', JBool True), (''regenerate'', JBool False),
              (''error'', JStr ''Could not regenerate response'')] ''regenerate''
      = Some (JBool False)" by simp
  note t = feedback_committed_before_regeneration [OF k fr fc dc dr run reg]
  have l0: "child_level sample_db 10 = Some 2"
    by (simp add: child_level_def sample_db_def lea_def complexity_of_def)
  have l1: "child_level (fst (snd ?run)) 10 = Some 1"
    using t by (simp add: run lea_def complexity_of_def)
  have fb: "map r_feedback (responses (fst (snd ?run))) = [Some TooComplex]"
    unfolding run by (simp add: committed_def sample_db_def stored_response_def)
  from k dc dr run l0 l1 fb show ?thesis by simp
qed

subsection \<open>The elaboration appended by \<open>need_more_details\<close>\<close>

lemma strip_Nil_iff: "strip s = [] \<longleftrightarrow> (\<forall>c\<in>set s. isspace c)"
proof
  assume "strip s = []"
  then have all: "\<forall>x\<in>set (dropWhile isspace s). isspace x"
    by (simp add: strip_def dropWhile_eq_Nil_conv)
  have "dropWhile isspace s = []"
  proof (rule ccontr)
    assume ne: "dropWhile isspace s \<noteq> []"
    then have "\<not> isspace (hd (dropWhile isspace s))" by (rule hd_dropWhile)
    moreover from ne have "hd (dropWhile isspace s) \<in> set (dropWhile isspace s)" by simp
    ultimately show False using all by blast
  qed
  then show "\<forall>c\<in>set s. isspace c" by (simp add: dropWhile_eq_Nil_conv)
next
  assume "\<forall>c\<in>set s. isspace c"
  then have e: "dropWhile isspace s = []" by (simp add: dropWhile_eq_Nil_conv)
  show "strip s = []" unfolding strip_def e by simp
qed

lemma is_blank_Some: "is_blank (Some s) \<longleftrightarrow> (\<forall>c\<in>set s. isspace c)"
  using strip_Nil_iff [of s] by (auto simp: is_blank_def)

lemma is_blank_append:
  "is_blank (Some (xs @ ys)) \<longleftrightarrow> is_blank (Some xs) \<and> is_blank (Some ys)"
  by (auto simp: is_blank_Some)

lemma is_blank_two_newlines: "is_blank (Some (a @ [CHR 0x0A, CHR 0x0A] @ s))
    \<longleftrightarrow> is_blank (Some a) \<and> is_blank (Some s)"
  by (auto simp: is_blank_Some isspace_def)

lemma is_blank_two_newlines_cons: "is_blank (Some (a @ CHR 0x0A # CHR 0x0A # s))
    \<longleftrightarrow> is_blank (Some a) \<and> is_blank (Some s)"
  using is_blank_two_newlines [of a s] by simp

lemma regenerate_need_more_details_exact:
  assumes "regenerate_response cl now NeedMoreDetails c r = (Some x, sent)"
    and "r_answer r = Some a"
  shows "\<exists>prov s. cl = Some prov
      \<and> try_gpt5_then_gpt4o prov (PlusInfosSystemMessage (c_name c))
            (plus_infos_user_message (r_question r)) = (Content (Some s), sent)
      \<and> x = (if is_blank (Some a) \<and> is_blank (Some s)
             then regenerate_fallback_answer (c_name c)
             else a @ [CHR 0x0A, CHR 0x0A] @ s)"
proof (cases cl)
  case None
  with assms show ?thesis by (simp add: regenerate_response_def)
next
  case (Some prov)
  obtain oc st where t: "try_gpt5_then_gpt4o prov (PlusInfosSystemMessage (c_name c))
            (plus_infos_user_message (r_question r)) = (oc, st)"
    by (cases "try_gpt5_then_gpt4o prov (PlusInfosSystemMessage (c_name c))
            (plus_infos_user_message (r_question r))") auto
  show ?thesis
  proof (cases oc)
    case Raises
    with assms Some t show ?thesis by (simp add: regenerate_response_def)
  next
    case (Content co)
    show ?thesis
    proof (cases co)
      case None
      with assms Some t Content show ?thesis by (simp add: regenerate_response_def)
    next
      case (Some s)
      with assms \<open>cl = Some prov\<close> t Content show ?thesis
        by (auto simp add: regenerate_response_def Let_def fmt_def is_blank_two_newlines_cons)
    qed
  qed
qed

text \<open>
  What a successful \<open>need_more_details\<close> stores and returns: the original answer, two
  newlines and the elaboration \<open>s\<close> that the chain of models returned; or the fixed
  message of \<open>regenerate_fallback_answer\<close> when the original answer and the elaboration
  are both empty or blank.
\<close>

lemma need_more_details_stored_answer:
  assumes "find (\<lambda>r. r_id r = rid \<and> r_parent_id r = u_id u) (responses d) = Some r"
    and "find (\<lambda>c. c_id c = r_child_id r \<and> c_parent_id c = u_id u) (children d) = Some c"
    and "r_answer r = Some a"
    and "distinct (map r_id (responses d))"
    and "submit_feedback cl utcnow now rid NeedMoreDetails u d = (Inr res, d', sent)"
    and "map_of res ''regenerate'' = Some (JBool True)"
  shows "\<exists>prov s x. cl = Some prov
      \<and> try_gpt5_then_gpt4o prov (PlusInfosSystemMessage (c_name c))
            (plus_infos_user_message (r_question r)) = (Content (Some s), sent)
      \<and> x = (if is_blank (Some a) \<and> is_blank (Some s)
             then regenerate_fallback_answer (c_name c)
             else a @ [CHR 0x0A, CHR 0x0A] @ s)
      \<and> map_option r_answer (find (\<lambda>y. r_id y = rid) (responses d')) = Some (Some x)
      \<and> (\<exists>nr. map_of res ''new_response'' = Some (JObj nr)
             \<and> map_of nr ''answer'' = Some (JStr x))"
proof -
  let ?k = NeedMoreDetails
  have k: "?k \<noteq> Understood" by simp
  have ng: "\<not> post_trial_free u utcnow"
  proof
    assume "post_trial_free u utcnow"
    from submit_feedback_gated [OF this k, of cl now rid d] assms(5) show False by simp
  qed
  obtain b s0 where rr: "regenerate_response cl now ?k (adjusted ?k c) r = (b, s0)"
    by (cases "regenerate_response cl now ?k (adjusted ?k c) r") auto
  have "b \<noteq> None"
  proof
    assume "b = None"
    with submit_feedback_regenerate [OF ng k assms(1,2), of cl now] rr assms(5,6)
    show False by auto
  qed
  then obtain x where b: "b = Some x" by auto
  from submit_feedback_regenerate [OF ng k assms(1,2), of cl now] rr b assms(5)
  have res: "res = [(''success'', JBool True), (''regenerate'', JBool True),
                 (''new_response'', JObj [(''id'', JInt (int rid)),
                    (''question'', JStr (r_question r)),
                    (''answer'', JStr x),
                    (''child_id'', JInt (int (r_child_id r))),
                    (''child_name'', JStr (c_name c)),
                    (''complexity_level'', JInt (complexity_of (adjusted ?k c)))])]"
    and d': "d' = (committed utcnow rid ?k r c d)\<lparr>responses := update_one (\<lambda>x. r_id x = rid)
                (\<lambda>y. y\<lparr>r_answer := Some x, r_regenerated := True,
                       r_regenerated_timestamp := Some utcnow\<rparr>)
                (responses (committed utcnow rid ?k r c d))\<rparr>"
    and sent: "sent = s0"
    by simp_all
  have stored: "map_option r_answer (find (\<lambda>y. r_id y = rid) (responses d')) = Some (Some x)"
    unfolding d' using committed_feedback [OF assms(4,1), of utcnow ?k c]
    by (simp add: find_update_one)
  have returned: "\<exists>nr. map_of res ''new_response'' = Some (JObj nr)
             \<and> map_of nr ''answer'' = Some (JStr x)"
    unfolding res by simp
  have name: "c_name (adjusted ?k c) = c_name c" by (simp add: adjusted_def)
  from regenerate_need_more_details_exact [OF rr [unfolded b] assms(3)]
  obtain prov s where "cl = Some prov"
    and "try_gpt5_then_gpt4o prov (PlusInfosSystemMessage (c_name c))
            (plus_infos_user_message (r_question r)) = (Content (Some s), sent)"
    and "x = (if is_blank (Some a) \<and> is_blank (Some s)
             then regenerate_fallback_answer (c_name c)
             else a @ [CHR 0x0A, CHR 0x0A] @ s)"
    unfolding name sent by blast
  with stored returned show ?thesis by blast
qed

lemma blank_space_newlines: "is_blank (Some ('' '' @ [CHR 0x0A, CHR 0x0A] @ []))"
  by (simp add: is_blank_Some isspace_def)

lemma not_blank_sample: "\<not> is_blank (Some ''Le ciel est bleu.'')"
  by (simp add: is_blank_Some isspace_def)

lemma not_blank_sample_answer: "\<not> is_blank (Some ''Parce que la lumiere se disperse.'')"
  by (simp add: is_blank_Some isspace_def)

text \<open>
  Claim C3 on the sample data. The stored answer is a single space (what \<open>ask_question\<close>
  stores when its secondary model returns a space), the primary model raises and the
  secondary returns the empty string. The handler reports a successful regeneration
  (\<open>regenerate = true\<close>, with a \<open>new_response\<close>), and the stored and returned answer is
  its own could-not-regenerate message, which does not start with the original answer.
  The claim expects the original answer as a prefix.
\<close>

theorem need_more_details_blank_answer_overwritten:
  "map r_answer (responses blank_db) = [Some '' '']
   \<and> fst (submit_feedback (Some prov_empty_fallback) t_march t_march 20 NeedMoreDetails
          premium_user blank_db)
       = Inr [(''success'', JBool True), (''regenerate'', JBool True),
              (''new_response'', JObj [(''id'', JInt 20),
                 (''question'', JStr ''Pourquoi le ciel est bleu ?''),
                 (''answer'', JStr (regenerate_fallback_answer ''Lea'')),
                 (''child_id'', JInt 10), (''child_name'', JStr ''Lea''),
                 (''complexity_level'', JInt 2)])]
   \<and> map r_answer (responses (fst (snd (submit_feedback (Some prov_empty_fallback) t_march
          t_march 20 NeedMoreDetails premium_user blank_db))))
       = [Some (regenerate_fallback_answer ''Lea'')]
   \<and> \<not> prefix '' '' (regenerate_fallback_answer ''Lea'')"
proof -
  have g: "\<not> post_trial_free premium_user t_march"
    by (simp add: post_trial_free_def premium_user_def)
  have fr: "find (\<lambda>r. r_id r = 20 \<and> r_parent_id r = u_id premium_user) (responses blank_db)
      = Some (stored_response\<lparr>r_answer := Some '' ''\<rparr>)"
    by (simp add: blank_db_def sample_db_def stored_response_def premium_user_def free_user_def)
  have fc: "find (\<lambda>c. c_id c = r_child_id (stored_response\<lparr>r_answer := Some '' ''\<rparr>)
        \<and> c_parent_id c = u_id premium_user) (children blank_db) = Some lea"
    by (simp add: blank_db_def sample_db_def stored_response_def premium_user_def free_user_def
        lea_def)
  have rr: "regenerate_response (Some prov_empty_fallback) t_march NeedMoreDetails
      (adjusted NeedMoreDetails lea) (stored_response\<lparr>r_answer := Some '' ''\<rparr>)
      = (Some (regenerate_fallback_answer ''Lea''),
         [\<lparr>cr_model = GPT5, cr_system = PlusInfosSystemMessage ''Lea'',
            cr_user = plus_infos_user_message ''Pourquoi le ciel est bleu ?''\<rparr>,
          \<lparr>cr_model = GPT4o, cr_system = PlusInfosSystemMessage ''Lea'',
            cr_user = plus_infos_user_message ''Pourquoi le ciel est bleu ?''\<rparr>])"
    using blank_space_newlines
    by (simp add: regenerate_response_def try_gpt5_then_gpt4o_def prov_empty_fallback_def
        adjusted_def lea_def stored_response_def fmt_def Let_def)
  have lvl: "complexity_of (adjusted NeedMoreDetails lea) = 2"
    by (simp add: adjusted_def lea_def complexity_of_def)
  note run = submit_feedback_regenerate [OF g _ fr fc, of NeedMoreDetails
      "Some prov_empty_fallback" t_march, simplified rr, simplified]
  have a: "map r_answer (responses blank_db) = [Some '' '']"
    by (simp add: blank_db_def sample_db_def stored_response_def)
  have b: "fst (submit_feedback (Some prov_empty_fallback) t_march t_march 20 NeedMoreDetails
          premium_user blank_db)
       = Inr [(''success'', JBool True), (''regenerate'', JBool True),
              (''new_response'', JObj [(''id'', JInt 20),
                 (''question'', JStr ''Pourquoi le ciel est bleu ?''),
                 (''answer'', JStr (regenerate_fallback_answer ''Lea'')),
                 (''child_id'', JInt 10), (''child_name'', JStr ''Lea''),
                 (''complexity_level'', JInt 2)])]"
    unfolding run by (simp add: lvl) (simp add: stored_response_def lea_def)
  have c: "map r_answer (responses (fst (snd (submit_feedback (Some prov_empty_fallback) t_march
          t_march 20 NeedMoreDetails premium_user blank_db))))
       = [Some (regenerate_fallback_answer ''Lea'')]"
    unfolding run
    by (simp add: committed_def blank_db_def sample_db_def) (simp add: stored_response_def)
  have d: "\<not> prefix '' '' (regenerate_fallback_answer ''Lea'')"
    by (simp add: regenerate_fallback_answer_def)
  from a b c d show ?thesis by blast
qed

text \<open>
  Claim C8 on the sample data. In a \<open>need_more_details\<close> regeneration the primary model
  raises and the secondary returns the empty string: both attempts have failed. The
  handler reports a successful regeneration (\<open>regenerate = true\<close>, with a
  \<open>new_response\<close> and no error), and the stored answer is no longer the original: two
  newlines are appended to it. The claim expects the stored answer untouched and a
  regeneration-failed result.
\<close>

theorem need_more_details_blank_elaboration_reported_success:
  "prov_empty_fallback \<lparr>cr_model = GPT5, cr_system = PlusInfosSystemMessage ''Lea'',
       cr_user = plus_infos_user_message ''Pourquoi le ciel est bleu ?''\<rparr> = Raises
   \<and> prov_empty_fallback \<lparr>cr_model = GPT4o, cr_system = PlusInfosSystemMessage ''Lea'',
       cr_user = plus_infos_user_message ''Pourquoi le ciel est bleu ?''\<rparr> = Content (Some [])
   \<and> map r_answer (responses sample_db) = [Some ''Le ciel est bleu.'']
   \<and> fst (submit_feedback (Some prov_empty_fallback) t_march t_march 20 NeedMoreDetails
          premium_user sample_db)
     = Inr [(''success'', JBool True), (''regenerate'', JBool True),
            (''new_response'', JObj [(''id'', JInt 20),
               (''question'', JStr ''Pourquoi le ciel est bleu ?''),
               (''answer'', JStr (''Le ciel est bleu.'' @ [CHR 0x0A, CHR 0x0A])),
               (''child_id'', JInt 10), (''child_name'', JStr ''Lea''),
               (''complexity_level'', JInt 2)])]
   \<and> map r_answer (responses (fst (snd (submit_feedback (Some prov_empty_fallback) t_march
          t_march 20 NeedMoreDetails premium_user sample_db))))
     = [Some (''Le ciel est bleu.'' @ [CHR 0x0A, CHR 0x0A])]"
proof -
  have g: "\<not> post_trial_free premium_user t_march"
    by (simp add: post_trial_free_def premium_user_def)
  have fr: "find (\<lambda>r. r_id r = 20 \<and> r_parent_id r = u_id premium_user) (responses sample_db)
      = Some stored_response"
    by (simp add: sample_db_def stored_response_def premium_user_def free_user_def)
  have fc: "find (\<lambda>c. c_id c = r_child_id stored_response \<and> c_parent_id c = u_id premium_user)
      (children sample_db) = Some lea"
    by (simp add: sample_db_def stored_response_def premium_user_def free_user_def lea_def)
  have nb: "\<not> is_blank (Some (''Le ciel est bleu.'' @ [CHR 0x0A, CHR 0x0A] @ []))"
    using not_blank_sample is_blank_append [of "''Le ciel est bleu.''"] by simp
  have rr: "regenerate_response (Some prov_empty_fallback) t_march NeedMoreDetails
      (adjusted NeedMoreDetails lea) stored_response
      = (Some (''Le ciel est bleu.'' @ [CHR 0x0A, CHR 0x0A]),
         [\<lparr>cr_model = GPT5, cr_system = PlusInfosSystemMessage ''Lea'',
            cr_user = plus_infos_user_message ''Pourquoi le ciel est bleu ?''\<rparr>,
          \<lparr>cr_model = GPT4o, cr_system = PlusInfosSystemMessage ''Lea'',
            cr_user = plus_infos_user_message ''Pourquoi le ciel est bleu ?''\<rparr>])"
    using nb
    by (simp add: regenerate_response_def try_gpt5_then_gpt4o_def prov_empty_fallback_def
        adjusted_def lea_def stored_response_def fmt_def Let_def)
  have lvl: "complexity_of (adjusted NeedMoreDetails lea) = 2"
    by (simp add: adjusted_def lea_def complexity_of_def)
  note run = submit_feedback_regenerate [OF g _ fr fc, of NeedMoreDetails
      "Some prov_empty_fallback" t_march, simplified rr, simplified]
  have p1: "prov_empty_fallback \<lparr>cr_model = GPT5, cr_system = PlusInfosSystemMessage ''Lea'',
       cr_user = plus_infos_user_message ''Pourquoi le ciel est bleu ?''\<rparr> = Raises"
    by (simp add: prov_empty_fallback_def)
  have p2: "prov_empty_fallback \<lparr>cr_model = GPT4o, cr_system = PlusInfosSystemMessage ''Lea'',
       cr_user = plus_infos_user_message ''Pourquoi le ciel est bleu ?''\<rparr> = Content (Some [])"
    by (simp add: prov_empty_fallback_def)
  have before: "map r_answer (responses sample_db) = [Some ''Le ciel est bleu.'']"
    by (simp add: sample_db_def stored_response_def)
  have after: "fst (submit_feedback (Some prov_empty_fallback) t_march t_march 20 NeedMoreDetails
          premium_user sample_db)
     = Inr [(''success'', JBool True), (''regenerate'', JBool True),
            (''new_response'', JObj [(''id'', JInt 20),
               (''question'', JStr ''Pourquoi le ciel est bleu ?''),
               (''answer'', JStr (''Le ciel est bleu.'' @ [CHR 0x0A, CHR 0x0A])),
               (''child_id'', JInt 10), (''child_name'', JStr ''Lea''),
               (''complexity_level'', JInt 2)])]
   \<and> map r_answer (responses (fst (snd (submit_feedback (Some prov_empty_fallback) t_march
          t_march 20 NeedMoreDetails premium_user sample_db))))
     = [Some (''Le ciel est bleu.'' @ [CHR 0x0A, CHR 0x0A])]"
    unfolding run
    by (simp add: lvl committed_def sample_db_def) (simp add: stored_response_def lea_def)
  from p1 p2 before after show ?thesis by blast
qed

subsection \<open>The cases of \<open>ask_question\<close>\<close>

lemma ask_question_no_child:
  assumes "find (\<lambda>c. c_id c = qr_child_id request \<and> c_parent_id c = u_id u) (children d) = None"
  shows "ask_question cl utcnow now request u d = (Inl (HTTPException 404 ''Child not found''), d, [])"
  using assms by (simp add: ask_question_def)

lemma ask_question_child_not_active:
  assumes "find (\<lambda>c. c_id c = qr_child_id request \<and> c_parent_id c = u_id u) (children d)
      = Some child"
    and "post_trial_free u utcnow"
    and "u_active_child_id u \<noteq> None" "Some (c_id child) \<noteq> u_active_child_id u"
  shows "ask_question cl utcnow now request u d
    = (Inl (HTTPException 402 ''Child not active in free version''), d, [])"
  using assms by (simp add: ask_question_def post_trial_free_def)

lemma ask_question_monthly_limit:
  assumes "find (\<lambda>c. c_id c = qr_child_id request \<and> c_parent_id c = u_id u) (children d)
      = Some child"
    and "post_trial_free u utcnow"
    and "\<not> (u_active_child_id u \<noteq> None \<and> Some (c_id child) \<noteq> u_active_child_id u)"
    and "questions_this_month (u_id u) utcnow d \<ge> 1"
  shows "ask_question cl utcnow now request u d
    = (Inl (HTTPException 402 ''Monthly question limit reached''), d, [])"
  using assms by (auto simp add: ask_question_def post_trial_free_def Let_def)

lemma ask_question_admitted:
  assumes "find (\<lambda>c. c_id c = qr_child_id request \<and> c_parent_id c = u_id u) (children d)
      = Some child"
    and "\<not> (post_trial_free u utcnow
           \<and> ((u_active_child_id u \<noteq> None \<and> Some (c_id child) \<noteq> u_active_child_id u)
               \<or> questions_this_month (u_id u) utcnow d \<ge> 1))"
    and "ask_generate cl (ask_system_message now child) (qr_question request) (c_name child)
      = (ai_answer, sent)"
  shows "ask_question cl utcnow now request u d
    = (Inr [(''id'', JInt (int (next_oid d))),
            (''question'', JStr (qr_question request)),
            (''answer'', opt_str ai_answer),
            (''child_id'', JInt (int (qr_child_id request))),
            (''child_name'', JStr (c_name child)),
            (''child_age_months'',
               JInt (calculate_age_months now (c_birth_year child) (c_birth_month child))),
            (''created_at'', JTime utcnow)],
       d\<lparr>responses := responses d
              @ [ask_new_response utcnow now request u child (next_oid d) ai_answer],
         next_oid := Suc (next_oid d),
         users := update_one (\<lambda>x. u_id x = u_id u)
           (\<lambda>x. x\<lparr>u_questions_asked := u_questions_asked x + 1\<rparr>) (users d)\<rparr>,
       sent)"
proof -
  from assms(2) have g1: "\<not> (\<not> u_is_premium u \<and> \<not> is_trial_active u utcnow
      \<and> u_active_child_id u \<noteq> None \<and> Some (c_id child) \<noteq> u_active_child_id u)"
    and g2: "\<not> (\<not> u_is_premium u \<and> \<not> is_trial_active u utcnow
      \<and> questions_this_month (u_id u) utcnow d \<ge> 1)"
    by (auto simp: post_trial_free_def)
  show ?thesis
    unfolding ask_question_def Let_def
    using assms(1,3) g1 g2
    by (simp add: ask_generate_def ask_system_message_def ask_new_response_def
        split: option.splits)
qed

subsection \<open>The fallback chain of \<open>ask_question\<close>\<close>


lemma free_user_post_trial: "post_trial_free free_user t_march"
  by (simp add: post_trial_free_def free_user_def is_trial_active_def dt_less_def dt_fields_def
      sample_dates)

lemma free_user_post_trial_later: "post_trial_free free_user t_march_later"
  by (simp add: post_trial_free_def free_user_def is_trial_active_def dt_less_def dt_fields_def
      sample_dates)

lemma find_lea_empty_db:
  "find (\<lambda>c. c_id c = qr_child_id sample_question \<and> c_parent_id c = u_id free_user)
     (children empty_db) = Some lea"
  by (simp add: empty_db_def sample_question_def free_user_def lea_def)

lemma questions_this_month_empty_db: "questions_this_month uid t empty_db = 0"
  by (simp add: questions_this_month_def count_documents_def empty_db_def)

lemma gate_open_empty_db:
  "\<not> (post_trial_free free_user t
      \<and> ((u_active_child_id free_user \<noteq> None \<and> Some (c_id lea) \<noteq> u_active_child_id free_user)
          \<or> questions_this_month (u_id free_user) t empty_db \<ge> 1))"
  by (simp add: questions_this_month_empty_db) (simp add: free_user_def lea_def)

lemma ask_system_message_lea:
  "ask_system_message t_march lea = AdvancedSystemMessage ''Lea'' Girl (5, 0) 2"
  by (simp add: ask_system_message_def generate_advanced_system_message_def
      calculate_child_age_years_def complexity_of_def lea_def sample_dates Let_def)



subsection \<open>The monthly question limit\<close>

text \<open>
  The usage count filters the responses on their field \<open>user_id\<close>. \<open>ask_question\<close>
  stores the account under \<open>parent_id\<close> and leaves \<open>user_id\<close> unset, so on a database
  filled by \<open>ask_question\<close> the count is 0 and the limit is never reached.
\<close>

lemma questions_this_month_unwritten:
  "\<forall>r\<in>set (responses d). r_user_id r = None \<Longrightarrow> questions_this_month uid t d = 0"
  by (simp add: questions_this_month_def count_documents_def filter_empty_conv)

lemma ask_question_leaves_user_id_unset:
  assumes "\<forall>r\<in>set (responses d). r_user_id r = None"
  shows "\<forall>r\<in>set (responses (fst (snd (ask_question cl utcnow now request u d)))).
           r_user_id r = None"
proof (cases "find (\<lambda>c. c_id c = qr_child_id request \<and> c_parent_id c = u_id u) (children d)")
  case None
  with assms show ?thesis by (simp add: ask_question_no_child)
next
  case (Some child)
  from questions_this_month_unwritten [OF assms]
  have q: "questions_this_month (u_id u) utcnow d = 0" .
  obtain a s where gen: "ask_generate cl (ask_system_message now child) (qr_question request)
      (c_name child) = (a, s)"
    by (cases "ask_generate cl (ask_system_message now child) (qr_question request)
      (c_name child)") auto
  show ?thesis
  proof (cases "post_trial_free u utcnow
      \<and> u_active_child_id u \<noteq> None \<and> Some (c_id child) \<noteq> u_active_child_id u")
    case True
    with Some assms show ?thesis by (simp add: ask_question_child_not_active)
  next
    case False
    with q have "\<not> (post_trial_free u utcnow
           \<and> ((u_active_child_id u \<noteq> None \<and> Some (c_id child) \<noteq> u_active_child_id u)
               \<or> questions_this_month (u_id u) utcnow d \<ge> 1))" by auto
    from ask_question_admitted [OF Some this gen] assms show ?thesis
      by (simp add: ask_new_response_def)
  qed
qed

lemma ask_question_never_monthly_limit:
  assumes "\<forall>r\<in>set (responses d). r_user_id r = None"
  shows "fst (ask_question cl utcnow now request u d)
      \<noteq> Inl (HTTPException 402 ''Monthly question limit reached'')"
proof (cases "find (\<lambda>c. c_id c = qr_child_id request \<and> c_parent_id c = u_id u) (children d)")
  case None
  then show ?thesis by (simp add: ask_question_no_child)
next
  case (Some child)
  from questions_this_month_unwritten [OF assms]
  have q: "questions_this_month (u_id u) utcnow d = 0" .
  obtain a s where gen: "ask_generate cl (ask_system_message now child) (qr_question request)
      (c_name child) = (a, s)"
    by (cases "ask_generate cl (ask_system_message now child) (qr_question request)
      (c_name child)") auto
  show ?thesis
  proof (cases "post_trial_free u utcnow
      \<and> u_active_child_id u \<noteq> None \<and> Some (c_id child) \<noteq> u_active_child_id u")
    case True
    with Some show ?thesis by (simp add: ask_question_child_not_active)
  next
    case False
    with q have "\<not> (post_trial_free u utcnow
           \<and> ((u_active_child_id u \<noteq> None \<and> Some (c_id child) \<noteq> u_active_child_id u)
               \<or> questions_this_month (u_id u) utcnow d \<ge> 1))" by auto
    from ask_question_admitted [OF Some this gen] show ?thesis by simp
  qed
qed

lemma ask_generate_prov_ok:
  "ask_generate (Some prov_ok) sys q name
     = (Some ''Parce que la lumiere se disperse.'',
        [\<lparr>cr_model = GPT5, cr_system = sys, cr_user = q\<rparr>])"
  using try_chain_primary_ok [of prov_ok sys q "Some ''Parce que la lumiere se disperse.''"]
    not_blank_sample_answer
  by (simp add: ask_generate_def prov_ok_def)

lemma after_first_question_eq:
  "after_first_question
     = \<lparr>users = [free_user\<lparr>u_questions_asked := 1\<rparr>], children = [lea],
        responses = [ask_new_response t_march t_march sample_question free_user lea 21
           (Some ''Parce que la lumiere se disperse.'')],
        next_oid = 22\<rparr>"
  unfolding after_first_question_def
    ask_question_admitted [OF find_lea_empty_db gate_open_empty_db ask_generate_prov_ok]
  by (simp add: empty_db_def free_user_def)

lemma find_lea_after_first_question:
  "find (\<lambda>c. c_id c = qr_child_id sample_question \<and> c_parent_id c = u_id free_user)
     (children after_first_question) = Some lea"
  by (simp add: after_first_question_eq sample_question_def free_user_def lea_def)

lemma questions_this_month_after_first_question:
  "questions_this_month uid t after_first_question = 0"
  by (simp add: questions_this_month_def count_documents_def after_first_question_eq
      ask_new_response_def)

lemma gate_open_after_first_question:
  "\<not> (post_trial_free free_user t
      \<and> ((u_active_child_id free_user \<noteq> None \<and> Some (c_id lea) \<noteq> u_active_child_id free_user)
          \<or> questions_this_month (u_id free_user) t after_first_question \<ge> 1))"
  by (simp add: questions_this_month_after_first_question) (simp add: free_user_def lea_def)

text \<open>
  Claim C1 on the sample data: a post-trial free account asks a first question for its
  active child and is admitted; it asks a second one the next day, in the same month.
  One response of the account was created this month, the usage count is still 0, and
  the second question is admitted too, where the claim expects HTTP 402
  "Monthly question limit reached".
\<close>

theorem monthly_limit_not_enforced:
  "post_trial_free free_user t_march \<and> post_trial_free free_user t_march_later
   \<and> u_active_child_id free_user = Some (qr_child_id sample_question)
   \<and> questions_this_month (u_id free_user) t_march empty_db = 0
   \<and> fst (ask_question (Some prov_ok) t_march t_march sample_question free_user empty_db)
       = Inr [(''id'', JInt 21), (''question'', JStr ''Pourquoi la mer est bleue ?''),
              (''answer'', JStr ''Parce que la lumiere se disperse.''),
              (''child_id'', JInt 10), (''child_name'', JStr ''Lea''),
              (''child_age_months'', JInt 70), (''created_at'', JTime t_march)]
   \<and> count_documents
        (\<lambda>r. r_parent_id r = u_id free_user
             \<and> dt_ge (r_created_at r) (start_of_month t_march_later))
        (responses after_first_question) = 1
   \<and> questions_this_month (u_id free_user) t_march_later after_first_question = 0
   \<and> fst (ask_question (Some prov_ok) t_march_later t_march_later sample_question free_user
          after_first_question)
       = Inr [(''id'', JInt 22), (''question'', JStr ''Pourquoi la mer est bleue ?''),
              (''answer'', JStr ''Parce que la lumiere se disperse.''),
              (''child_id'', JInt 10), (''child_name'', JStr ''Lea''),
              (''child_age_months'', JInt 70), (''created_at'', JTime t_march_later)]"
proof -
  have ac: "u_active_child_id free_user = Some (qr_child_id sample_question)"
    by (simp add: free_user_def sample_question_def)
  have first: "fst (ask_question (Some prov_ok) t_march t_march sample_question free_user
      empty_db)
       = Inr [(''id'', JInt 21), (''question'', JStr ''Pourquoi la mer est bleue ?''),
              (''answer'', JStr ''Parce que la lumiere se disperse.''),
              (''child_id'', JInt 10), (''child_name'', JStr ''Lea''),
              (''child_age_months'', JInt 70), (''created_at'', JTime t_march)]"
    unfolding ask_question_admitted [OF find_lea_empty_db gate_open_empty_db ask_generate_prov_ok]
    by (simp add: empty_db_def sample_question_def lea_def opt_str_def calculate_age_months_def)
       (simp add: sample_dates)
  have cnt: "count_documents
        (\<lambda>r. r_parent_id r = u_id free_user
             \<and> dt_ge (r_created_at r) (start_of_month t_march_later))
        (responses after_first_question) = 1"
    by (simp add: after_first_question_eq count_documents_def ask_new_response_def dt_ge_def
        dt_less_def dt_fields_def start_of_month_def sample_dates)
  have second: "fst (ask_question (Some prov_ok) t_march_later t_march_later sample_question
      free_user after_first_question)
       = Inr [(''id'', JInt 22), (''question'', JStr ''Pourquoi la mer est bleue ?''),
              (''answer'', JStr ''Parce que la lumiere se disperse.''),
              (''child_id'', JInt 10), (''child_name'', JStr ''Lea''),
              (''child_age_months'', JInt 70), (''created_at'', JTime t_march_later)]"
    unfolding ask_question_admitted [OF find_lea_after_first_question
        gate_open_after_first_question ask_generate_prov_ok]
    by (simp add: after_first_question_eq sample_question_def lea_def opt_str_def
        calculate_age_months_def)
       (simp add: sample_dates)
  from free_user_post_trial free_user_post_trial_later ac
    questions_this_month_empty_db [of "u_id free_user" t_march] first cnt
    questions_this_month_after_first_question [of "u_id free_user" t_march_later] second
  show ?thesis by blast
qed

subsection \<open>The complexity level stays between -2 and 2\<close>

lemma list_all_update_one:
  "list_all P xs \<Longrightarrow> (\<And>x. P (f x)) \<Longrightarrow> list_all P (update_one Q f xs)"
  by (induction xs) auto

lemma committed_levels_in_range:
  assumes "levels_in_range d"
  shows "levels_in_range (committed utcnow rid k r c d)"
  using assms unfolding levels_in_range_def committed_def
  by (auto intro!: list_all_update_one simp: complexity_of_def)

lemma committed_child_ids:
  "map c_id (children (committed utcnow rid k r c d)) = map c_id (children d)"
  by (simp add: committed_def map_update_one)

lemma submit_feedback_children:
  "children (fst (snd (submit_feedback cl utcnow now rid k u d))) = children d
   \<or> (\<exists>r c. children (fst (snd (submit_feedback cl utcnow now rid k u d)))
              = children (committed utcnow rid k r c d))"
proof (cases "post_trial_free u utcnow \<and> k \<noteq> Understood")
  case True
  then show ?thesis by (simp add: submit_feedback_gated)
next
  case ng: False
  show ?thesis
  proof (cases "find (\<lambda>r. r_id r = rid \<and> r_parent_id r = u_id u) (responses d)")
    case None
    with ng show ?thesis by (simp add: submit_feedback_no_response)
  next
    case (Some r)
    show ?thesis
    proof (cases "find (\<lambda>c. c_id c = r_child_id r \<and> c_parent_id c = u_id u) (children d)")
      case None
      with ng Some show ?thesis by (simp add: submit_feedback_no_child)
    next
      case c: (Some c)
      show ?thesis
      proof (cases "k = Understood")
        case True
        with Some c show ?thesis by (simp add: submit_feedback_understood)
      next
        case False
        with ng have g: "\<not> post_trial_free u utcnow" by simp
        obtain a s where rr: "regenerate_response cl now k (adjusted k c) r = (a, s)"
          by (cases "regenerate_response cl now k (adjusted k c) r") auto
        have "children (fst (snd (submit_feedback cl utcnow now rid k u d)))
              = children (committed utcnow rid k r c d)"
          using submit_feedback_regenerate [OF g False Some c, of cl now] rr
          by (cases a) simp_all
        then show ?thesis by blast
      qed
    qed
  qed
qed

lemma apply_feedback_invariant:
  assumes "levels_in_range d \<and> distinct (map c_id (children d))"
  shows "levels_in_range (apply_feedback e d) \<and> distinct (map c_id (children (apply_feedback e d)))"
proof -
  let ?d' = "fst (snd (submit_feedback (fe_client e) (fe_utcnow e) (fe_now e)
      (fe_response_id e) (fe_feedback e) (fe_user e) d))"
  from submit_feedback_children [of "fe_client e" "fe_utcnow e" "fe_now e" "fe_response_id e"
      "fe_feedback e" "fe_user e" d]
  consider "children ?d' = children d"
    | r c where "children ?d'
        = children (committed (fe_utcnow e) (fe_response_id e) (fe_feedback e) r c d)"
    by blast
  then have "levels_in_range ?d' \<and> distinct (map c_id (children ?d'))"
  proof cases
    case 1
    with assms show ?thesis by (simp add: levels_in_range_def)
  next
    case (2 r c)
    from assms have "levels_in_range
        (committed (fe_utcnow e) (fe_response_id e) (fe_feedback e) r c d)"
      by (simp add: committed_levels_in_range)
    with 2 assms show ?thesis
      by (simp add: levels_in_range_def committed_child_ids)
  qed
  then show ?thesis by (simp add: apply_feedback_def)
qed

lemma feedback_trace_invariant:
  "levels_in_range d \<and> distinct (map c_id (children d)) \<Longrightarrow>
   list_all (\<lambda>d'. levels_in_range d' \<and> distinct (map c_id (children d'))) (feedback_trace es d)"
proof (induction es arbitrary: d)
  case Nil
  then show ?case by simp
next
  case (Cons e es)
  from apply_feedback_invariant [OF Cons.prems, of e]
  have step: "levels_in_range (apply_feedback e d)
      \<and> distinct (map c_id (children (apply_feedback e d)))" .
  with Cons.IH [OF step] show ?case by simp
qed

lemma submit_feedback_level:
  assumes "distinct (map c_id (children d))"
    and "submit_feedback cl utcnow now rid k u d = (Inr res, d', sent)"
    and "find (\<lambda>r. r_id r = rid \<and> r_parent_id r = u_id u) (responses d) = Some r"
    and "find (\<lambda>c. c_id c = r_child_id r \<and> c_parent_id c = u_id u) (children d) = Some c"
  shows "child_level d (c_id c) = Some (complexity_of c)
     \<and> child_level d' (c_id c)
         = Some (case k of Understood \<Rightarrow> complexity_of c
                 | TooComplex \<Rightarrow> max (- 2) (min 2 (complexity_of c - 1))
                 | NeedMoreDetails \<Rightarrow> max (- 2) (min 2 (complexity_of c + 1)))"
proof -
  from assms(4) have cid: "c_id c = r_child_id r" by (auto simp: find_Some_iff)
  from find_distinct_key [OF assms(1,4)]
  have f: "find (\<lambda>x. c_id x = c_id c) (children d) = Some c" by (simp add: cid)
  then have before: "child_level d (c_id c) = Some (complexity_of c)"
    by (simp add: child_level_def)
  have after: "child_level d' (c_id c)
         = Some (case k of Understood \<Rightarrow> complexity_of c
                 | TooComplex \<Rightarrow> max (- 2) (min 2 (complexity_of c - 1))
                 | NeedMoreDetails \<Rightarrow> max (- 2) (min 2 (complexity_of c + 1)))"
  proof (cases "k = Understood")
    case True
    with submit_feedback_understood [OF assms(3,4), of cl utcnow now] assms(2) f
    show ?thesis by (auto simp: child_level_def)
  next
    case False
    have g: "\<not> post_trial_free u utcnow"
    proof
      assume "post_trial_free u utcnow"
      from submit_feedback_gated [OF this False, of cl now rid d] assms(2) show False by simp
    qed
    obtain a s where rr: "regenerate_response cl now k (adjusted k c) r = (a, s)"
      by (cases "regenerate_response cl now k (adjusted k c) r") auto
    have ch: "children d' = children (committed utcnow rid k r c d)"
      using submit_feedback_regenerate [OF g False assms(3,4), of cl now] rr assms(2)
      by (cases a) auto
    have "child_level d' (c_id c) = child_level (committed utcnow rid k r c d) (c_id c)"
      by (simp add: child_level_def ch)
    with committed_child_level [OF assms(1,4), of utcnow rid k] False
    show ?thesis by (cases k) simp_all
  qed
  from before after show ?thesis by blast
qed

text \<open>
  Claim C2. From a database in which every child's complexity level lies in the closed
  interval from -2 to 2, after every request of every run of \<open>submit_feedback\<close> requests
  (of any kind, by any caller, whatever the provider does) every level lies in that
  interval. An accepted \<open>too_complex\<close> sets the child's level to
  \<open>max(-2, min(2, level - 1))\<close>, an accepted \<open>need_more_details\<close> to
  \<open>max(-2, min(2, level + 1))\<close>, and \<open>understood\<close> leaves it as it is.
\<close>

theorem complexity_level_stays_in_range:
  assumes "levels_in_range d" and "distinct (map c_id (children d))"
  shows "list_all (\<lambda>d'. levels_in_range d' \<and> distinct (map c_id (children d')))
           (feedback_trace es d)
     \<and> (\<forall>cl utcnow now rid k u res d' sent r c.
           submit_feedback cl utcnow now rid k u d = (Inr res, d', sent)
           \<and> find (\<lambda>r. r_id r = rid \<and> r_parent_id r = u_id u) (responses d) = Some r
           \<and> find (\<lambda>c. c_id c = r_child_id r \<and> c_parent_id c = u_id u) (children d) = Some c
           \<longrightarrow> child_level d (c_id c) = Some (complexity_of c)
             \<and> child_level d' (c_id c)
                 = Some (case k of Understood \<Rightarrow> complexity_of c
                         | TooComplex \<Rightarrow> max (- 2) (min 2 (complexity_of c - 1))
                         | NeedMoreDetails \<Rightarrow> max (- 2) (min 2 (complexity_of c + 1))))"
proof (intro conjI allI impI)
  from assms show "list_all (\<lambda>d'. levels_in_range d' \<and> distinct (map c_id (children d')))
           (feedback_trace es d)"
    by (simp add: feedback_trace_invariant)
next
  fix cl utcnow now rid k u res d' sent r c
  assume a: "submit_feedback cl utcnow now rid k u d = (Inr res, d', sent)
           \<and> find (\<lambda>r. r_id r = rid \<and> r_parent_id r = u_id u) (responses d) = Some r
           \<and> find (\<lambda>c. c_id c = r_child_id r \<and> c_parent_id c = u_id u) (children d) = Some c"
  from submit_feedback_level [OF assms(2), of cl utcnow now rid k u res d' sent r c] a
  show "child_level d (c_id c) = Some (complexity_of c)"
    and "child_level d' (c_id c)
                 = Some (case k of Understood \<Rightarrow> complexity_of c
                         | TooComplex \<Rightarrow> max (- 2) (min 2 (complexity_of c - 1))
                         | NeedMoreDetails \<Rightarrow> max (- 2) (min 2 (complexity_of c + 1)))"
    by blast+
qed

lemma sample_trace_levels:
  "map (\<lambda>d. child_level d 10) (feedback_trace sample_events sample_db)
     = [Some 1, Some 0, Some 1, Some 2, Some 2]"
  by (simp add: sample_events_def sample_event_def apply_feedback_def submit_feedback_def
      regenerate_response_def premium_user_def free_user_def sample_db_def lea_def
      stored_response_def child_level_def complexity_of_def Let_def)

theorem complexity_level_stays_in_range_witness:
  "levels_in_range sample_db \<and> distinct (map c_id (children sample_db))
   \<and> map (\<lambda>d. child_level d 10) (feedback_trace sample_events sample_db)
       = [Some 1, Some 0, Some 1, Some 2, Some 2]
   \<and> list_all levels_in_range (feedback_trace sample_events sample_db)"
proof -
  have h1: "levels_in_range sample_db"
    by (simp add: levels_in_range_def sample_db_def lea_def complexity_of_def)
  have h2: "distinct (map c_id (children sample_db))" by (simp add: sample_db_def)
  from complexity_level_stays_in_range [OF h1 h2, of sample_events]
  have "list_all (\<lambda>d'. levels_in_range d' \<and> distinct (map c_id (children d')))
           (feedback_trace sample_events sample_db)" by blast
  then have t: "list_all levels_in_range (feedback_trace sample_events sample_db)"
    by (simp add: list_all_iff)
  from h1 h2 sample_trace_levels t show ?thesis by blast
qed

subsection \<open>Levels of created children\<close>

text \<open>
  A child created from a \<open>ChildCreate\<close> that satisfies its field constraints keeps the
  levels in range: the databases built by \<open>create_child\<close> satisfy the hypothesis of the
  invariant above.
\<close>

lemma create_child_levels_in_range:
  assumes "ChildCreate_valid this_year cd" and "levels_in_range d"
  shows "levels_in_range (snd (create_child utcnow now cd u d))"
  using assms
  by (simp add: create_child_def ChildCreate_valid_def levels_in_range_def complexity_of_def
      Let_def)

end
